theory Spec2Isabelle
  imports Complex_Main
begin

section \<open>Python strings and the regular expressions the code uses\<close>

text \<open>
  A Python \<open>str\<close> is modelled as a \<open>string\<close> whose characters stand for the code points
  0..255. \<open>isspace\<close> is \<open>str.isspace\<close> (and the class \<open>\s\<close> of \<open>re\<close>), \<open>isword\<close> is
  the class \<open>\w\<close>, \<open>isdigit\<close> the class \<open>\d\<close>, each restricted to these code points.
\<close>

definition isspace :: "char \<Rightarrow> bool" where
  "isspace c = (c \<in> set [CHR 0x09, CHR 0x0A, CHR 0x0B, CHR 0x0C, CHR 0x0D, CHR 0x1C, CHR 0x1D,
                           CHR 0x1E, CHR 0x1F, CHR 0x20, CHR 0x85, CHR 0xA0])"

definition isdigit :: "char \<Rightarrow> bool" where
  "isdigit c = (c \<in> set ''0123456789'')"

definition isword :: "char \<Rightarrow> bool" where
  "isword c = (let n = (of_char c :: nat) in
     (48 \<le> n \<and> n \<le> 57) \<or> (65 \<le> n \<and> n \<le> 90) \<or> n = 95 \<or> (97 \<le> n \<and> n \<le> 122) \<or>
     n \<in> set [170, 178, 179, 181, 185, 186, 188, 189, 190] \<or>
     (192 \<le> n \<and> n \<le> 214) \<or> (216 \<le> n \<and> n \<le> 246) \<or> 248 \<le> n)"

definition lower :: "char \<Rightarrow> char" where
  "lower c = (case map_of (zip ''ABCDEFGHIJKLMNOPQRSTUVWXYZ'' ''abcdefghijklmnopqrstuvwxyz'') c of
                Some l \<Rightarrow> l | None \<Rightarrow> c)"

text \<open>\<open>s.strip()\<close> and \<open>s.rstrip()\<close>.\<close>

definition rstrip :: "string \<Rightarrow> string" where
  "rstrip s = rev (dropWhile isspace (rev s))"

definition strip :: "string \<Rightarrow> string" where
  "strip s = rstrip (dropWhile isspace s)"

text \<open>\<open>s.startswith(p)\<close> and \<open>sub in s\<close>.\<close>

fun startswith :: "string \<Rightarrow> string \<Rightarrow> bool" where
  "startswith s [] = True"
| "startswith [] (p # ps) = False"
| "startswith (x # xs) (p # ps) = (x = p \<and> startswith xs ps)"

fun contains :: "string \<Rightarrow> string \<Rightarrow> bool" where
  "contains [] sub = (sub = [])"
| "contains (x # xs) sub = (startswith (x # xs) sub \<or> contains xs sub)"

text \<open>\<open>sep.join(parts)\<close> and \<open>str(n)\<close> for a length.\<close>

fun join :: "string \<Rightarrow> string list \<Rightarrow> string" where
  "join sep [] = []"
| "join sep [x] = x"
| "join sep (x # y # ys) = x @ sep @ join sep (y # ys)"

definition digit_char :: "nat \<Rightarrow> char" where
  "digit_char d = ''0123456789'' ! d"

fun str_of_nat :: "nat \<Rightarrow> string" where
  "str_of_nat n = (if n < 10 then [digit_char n]
                   else str_of_nat (n div 10) @ [digit_char (n mod 10)])"

text \<open>
  Every pattern of the analyzer is a sequence of single-character classes, each taken
  once or repeated (\<open>\s*\<close>, \<open>\s+\<close>, \<open>\d{4,}\<close>, \<open>.*\<close>). \<open>Many c n\<close> is the class \<open>c\<close>
  repeated at least \<open>n\<close> times. \<open>re.search\<close> only asks whether a match exists, so the
  order in which the engine tries the repetitions does not matter.
\<close>

datatype cls = Lit char | Space | Word | Digit | Dot | OneOf "char list"

datatype item = One cls | Many cls nat

fun cls_match :: "bool \<Rightarrow> cls \<Rightarrow> char \<Rightarrow> bool" where
  "cls_match ic (Lit c) x = (if ic then lower x = lower c else x = c)"
| "cls_match ic Space x = isspace x"
| "cls_match ic Word x = isword x"
| "cls_match ic Digit x = isdigit x"
| "cls_match ic Dot x = (x \<noteq> CHR 0x0A)"
| "cls_match ic (OneOf cs) x = (x \<in> set cs)"

fun re_match :: "bool \<Rightarrow> item list \<Rightarrow> string \<Rightarrow> bool" where
  "re_match ic [] s = True"
| "re_match ic (One c # ps) [] = False"
| "re_match ic (One c # ps) (x # xs) = (cls_match ic c x \<and> re_match ic ps xs)"
| "re_match ic (Many c 0 # ps) [] = re_match ic ps []"
| "re_match ic (Many c 0 # ps) (x # xs) =
     (re_match ic ps (x # xs) \<or> (cls_match ic c x \<and> re_match ic (Many c 0 # ps) xs))"
| "re_match ic (Many c (Suc n) # ps) [] = False"
| "re_match ic (Many c (Suc n) # ps) (x # xs) =
     (cls_match ic c x \<and> re_match ic (Many c n # ps) xs)"

text \<open>\<open>re.search(pattern, s, re.IGNORECASE) is not None\<close>: a match at some position.\<close>

fun re_search :: "bool \<Rightarrow> item list \<Rightarrow> string \<Rightarrow> bool" where
  "re_search ic p [] = re_match ic p []"
| "re_search ic p (x # xs) = (re_match ic p (x # xs) \<or> re_search ic p xs)"

definition lit :: "string \<Rightarrow> item list" where
  "lit s = map (\<lambda>c. One (Lit c)) s"

text \<open>
  The three import patterns \<open>^import\s+(\w+)\<close>, \<open>^from\s+(\w+)\<close> and
  \<open>^import\s+(\w+)\s+as\<close>, tried at the start of a line. \<open>\s\<close> and \<open>\w\<close> are
  disjoint and neither contains the letter after it, so the only possible match takes
  the longest run of each. The result is the group and the length of the whole match.
\<close>

definition match_import :: "string \<Rightarrow> bool \<Rightarrow> string \<Rightarrow> (string \<times> nat) option" where
  "match_import kw with_as s =
     (if startswith s kw then
        let r1 = drop (length kw) s;
            ws = takeWhile isspace r1; r2 = dropWhile isspace r1;
            w = takeWhile isword r2; r3 = dropWhile isword r2;
            ws2 = takeWhile isspace r3; r4 = dropWhile isspace r3
        in if ws = [] \<or> w = [] then None
           else if \<not> with_as then Some (w, length kw + length ws + length w)
           else if ws2 \<noteq> [] \<and> startswith r4 ''as''
                then Some (w, length kw + length ws + length w + length ws2 + 2)
           else None
      else None)"

text \<open>
  \<open>re.findall(pattern, script, re.MULTILINE)\<close> for these patterns: the matches from left
  to right, none overlapping. \<open>skip\<close> counts the characters of the last match still to
  pass; \<open>bol\<close> says that the position is the start of the text or follows a newline. A
  match ends in a word character or in \<open>s\<close>, so the position after it is not a line start.
\<close>

fun findall_import :: "string \<Rightarrow> bool \<Rightarrow> nat \<Rightarrow> bool \<Rightarrow> string \<Rightarrow> string list" where
  "findall_import kw with_as skip bol [] = []"
| "findall_import kw with_as (Suc k) bol (x # xs) = findall_import kw with_as k False xs"
| "findall_import kw with_as 0 bol (x # xs) =
     (case (if bol then match_import kw with_as (x # xs) else None) of
        Some (w, n) \<Rightarrow> w # findall_import kw with_as (n - 1) False xs
      | None \<Rightarrow> findall_import kw with_as 0 (x = CHR 0x0A) xs)"

section \<open>The script analyzer (services/script_analyzer.py)\<close>

datatype error = KeyError string | TypeError | HTTPException nat | NotFound | APIError

text \<open>\<open>d[k]\<close> on a dict: raises KeyError when the key is absent.\<close>

definition dict_get :: "(string \<times> 'v) list \<Rightarrow> string \<Rightarrow> error + 'v" where
  "dict_get d k = (case map_of d k of None \<Rightarrow> Inl (KeyError k) | Some v \<Rightarrow> Inr v)"

definition keys :: "(string \<times> 'v) list \<Rightarrow> string list" where
  "keys d = map fst d"

record ScriptAnalysis =
  recommended_profile :: string
  execution_mode :: string
  detected_libraries :: "string list"
  gpu_indicators :: "string list"
  memory_indicators :: "string list"
  compute_indicators :: "string list"
  confidence :: rat
  reasoning :: string

definition GPU_LIBRARIES :: "(string \<times> string) list" where
  "GPU_LIBRARIES =
    [(''torch'', ''PyTorch deep learning''),
     (''tensorflow'', ''TensorFlow deep learning''),
     (''keras'', ''Keras neural networks''),
     (''cupy'', ''CUDA-accelerated NumPy''),
     (''cudf'', ''CUDA DataFrame''),
     (''cuml'', ''CUDA Machine Learning''),
     (''pycuda'', ''Python CUDA bindings''),
     (''numba'', ''JIT compiler (may use GPU)''),
     (''jax'', ''JAX accelerated computing''),
     (''mxnet'', ''MXNet deep learning''),
     (''paddle'', ''PaddlePaddle deep learning''),
     (''onnxruntime'', ''ONNX Runtime (may use GPU)'')]"

definition MEMORY_INTENSIVE_LIBRARIES :: "(string \<times> string) list" where
  "MEMORY_INTENSIVE_LIBRARIES =
    [(''pandas'', ''DataFrame operations''),
     (''numpy'', ''Numerical computing''),
     (''scipy'', ''Scientific computing''),
     (''sklearn'', ''Machine Learning''),
     (''scikit-learn'', ''Machine Learning''),
     (''xgboost'', ''Gradient Boosting''),
     (''lightgbm'', ''Light Gradient Boosting''),
     (''catboost'', ''CatBoost''),
     (''dask'', ''Parallel computing''),
     (''polars'', ''Fast DataFrame''),
     (''vaex'', ''Out-of-core DataFrames''),
     (''modin'', ''Parallel Pandas''),
     (''opencv'', ''Computer Vision''),
     (''cv2'', ''OpenCV''),
     (''PIL'', ''Image Processing''),
     (''pillow'', ''Image Processing''),
     (''matplotlib'', ''Plotting (memory for figures)''),
     (''seaborn'', ''Statistical visualization''),
     (''plotly'', ''Interactive plots'')]"

definition quote :: item where
  "quote = One (OneOf [CHR 0x27, CHR 0x22])"

definition COMPUTE_INTENSIVE_PATTERNS :: "(item list \<times> string) list" where
  "COMPUTE_INTENSIVE_PATTERNS =
    [(lit ''.fit'' @ [Many Space 0] @ lit ''('', ''Model training detected''),
     (lit ''.train'' @ [Many Space 0] @ lit ''('', ''Training loop detected''),
     (lit ''for'' @ [Many Space 1] @ lit ''epoch'' @ [Many Space 1] @ lit ''in'',
        ''Epoch loop detected''),
     (lit ''for'' @ [Many Space 1, Many Word 1, Many Space 1] @ lit ''in'' @ [Many Space 1]
        @ lit ''range'' @ [Many Space 0] @ lit ''('' @ [Many Space 0, Many Digit 4],
        ''Large iteration loop''),
     (lit ''while'' @ [Many Space 1] @ lit ''True'', ''Infinite loop pattern''),
     (lit ''.cuda'' @ [Many Space 0] @ lit ''('', ''CUDA tensor transfer''),
     (lit ''.to'' @ [Many Space 0] @ lit ''('' @ [Many Space 0, quote] @ lit ''cuda'',
        ''CUDA device transfer''),
     (lit ''torch.device'' @ [Many Space 0] @ lit ''('' @ [Many Space 0, quote] @ lit ''cuda'',
        ''CUDA device creation''),
     (lit ''with'' @ [Many Space 1] @ lit ''tf.device'' @ [Many Dot 0] @ lit ''GPU'',
        ''TensorFlow GPU context''),
     (lit ''model.compile'', ''Keras model compilation''),
     (lit ''DataLoader'', ''PyTorch DataLoader''),
     (lit ''tf.data.Dataset'', ''TensorFlow Dataset''),
     (lit ''.backward'' @ [Many Space 0] @ lit ''('', ''Backpropagation''),
     (lit ''optimizer.step'', ''Optimizer step''),
     (lit ''.predict'' @ [Many Space 0] @ lit ''('', ''Model prediction''),
     (lit ''.transform'' @ [Many Space 0] @ lit ''('', ''Data transformation''),
     (lit ''multiprocessing'', ''Multiprocessing''),
     (lit ''ThreadPoolExecutor'', ''Thread pool''),
     (lit ''ProcessPoolExecutor'', ''Process pool'')]"

definition GPU_USAGE_PATTERNS :: "(item list \<times> string) list" where
  "GPU_USAGE_PATTERNS =
    [(lit ''.cuda'' @ [Many Space 0] @ lit ''('', ''CUDA transfer''),
     (lit ''.to'' @ [Many Space 0] @ lit ''('' @ [Many Space 0, quote] @ lit ''cuda'',
        ''To CUDA device''),
     (lit ''torch.cuda'', ''PyTorch CUDA''),
     (lit ''tf.config'' @ [Many Dot 0] @ lit ''GPU'', ''TensorFlow GPU config''),
     (lit ''with'' @ [Many Space 1] @ lit ''tf.device'' @ [Many Dot 0] @ lit ''GPU'',
        ''TensorFlow GPU device''),
     (lit ''gpu_options'', ''GPU options''),
     (lit ''CUDA_VISIBLE_DEVICES'', ''CUDA environment''),
     (lit ''cupy.'', ''CuPy operations''),
     (lit ''@cuda.jit'', ''Numba CUDA JIT''),
     (lit ''device'' @ [Many Space 0] @ lit ''='' @ [Many Space 0, quote] @ lit ''cuda'',
        ''CUDA device assignment'')]"

text \<open>
  \<open>_detect_libraries\<close>. The source returns \<open>list(set(detected))\<close>, whose order Python
  leaves open; \<open>remdups\<close> fixes one order. Profile, mode and confidence depend on the
  lengths of the lists only.
\<close>

definition import_matches :: "string \<Rightarrow> string list" where
  "import_matches script =
     findall_import ''import'' False 0 True script @
     findall_import ''from'' False 0 True script @
     findall_import ''import'' True 0 True script"

definition detect_libraries :: "string \<Rightarrow> string list" where
  "detect_libraries script =
     remdups (foldl (\<lambda>detected lib.
                if (contains script (lib @ ''.'') \<or> contains script (lib @ ''(''))
                   \<and> lib \<notin> set detected
                then detected @ [lib] else detected)
              (import_matches script)
              (keys GPU_LIBRARIES @ keys MEMORY_INTENSIVE_LIBRARIES))"

text \<open>The loop over the libraries in \<open>_detect_gpu_usage\<close> and \<open>_detect_memory_usage\<close>:
  \<open>fmt\<close> builds the indicator from the library and its description.\<close>

fun library_indicators ::
  "(string \<times> string) list \<Rightarrow> (string \<Rightarrow> string \<Rightarrow> string) \<Rightarrow> string list \<Rightarrow> error + string list" where
  "library_indicators table fmt [] = Inr []"
| "library_indicators table fmt (lib # libs) =
     (if lib \<in> set (keys table) then
        (case dict_get table lib of
           Inl e \<Rightarrow> Inl e
         | Inr d \<Rightarrow> (case library_indicators table fmt libs of
                       Inl e \<Rightarrow> Inl e
                     | Inr r \<Rightarrow> Inr (fmt lib d # r)))
      else library_indicators table fmt libs)"

definition pattern_indicators :: "(item list \<times> string) list \<Rightarrow> string \<Rightarrow> string list" where
  "pattern_indicators table script =
     map snd (filter (\<lambda>(pattern, description). re_search True pattern script) table)"

definition detect_gpu_usage :: "string \<Rightarrow> string list \<Rightarrow> error + string list" where
  "detect_gpu_usage script libraries =
     (case library_indicators GPU_LIBRARIES
             (\<lambda>lib d. ''Library: '' @ lib @ '' ('' @ d @ '')'') libraries of
        Inl e \<Rightarrow> Inl e
      | Inr indicators \<Rightarrow>
          Inr (remdups (indicators @
                 map (\<lambda>d. ''Pattern: '' @ d) (pattern_indicators GPU_USAGE_PATTERNS script))))"

definition detect_memory_usage :: "string list \<Rightarrow> error + string list" where
  "detect_memory_usage libraries =
     library_indicators MEMORY_INTENSIVE_LIBRARIES (\<lambda>lib d. lib @ '' ('' @ d @ '')'') libraries"

definition detect_compute_patterns :: "string \<Rightarrow> string list" where
  "detect_compute_patterns script = remdups (pattern_indicators COMPUTE_INTENSIVE_PATTERNS script)"

text \<open>
  \<open>_determine_profile\<close>: the scores, the mode, the ordered decision table with the
  confidence of each branch, and the reasoning text. The confidence is a Python float;
  the model computes it exactly, as a rational.
\<close>

definition gpu_score :: "string list \<Rightarrow> nat" where
  "gpu_score gpu_inds = length gpu_inds * 3"

definition memory_score :: "string list \<Rightarrow> nat" where
  "memory_score memory_inds = length memory_inds * 2"

definition compute_score :: "string list \<Rightarrow> nat" where
  "compute_score compute_inds = length compute_inds * 2"

definition total_score :: "string list \<Rightarrow> string list \<Rightarrow> string list \<Rightarrow> nat" where
  "total_score gpu_inds memory_inds compute_inds =
     gpu_score gpu_inds + memory_score memory_inds + compute_score compute_inds"

definition library_info :: "string list \<Rightarrow> string list" where
  "library_info libraries =
     (if libraries \<noteq> [] then
        [''Detected: '' @ join '', ''
           (take 5 libraries @
            (if length libraries > 5
             then [''...and '' @ str_of_nat (length libraries - 5) @ '' more''] else []))]
      else [])"

definition determine_profile ::
  "string list \<Rightarrow> string list \<Rightarrow> string list \<Rightarrow> string list \<Rightarrow> string \<times> string \<times> rat \<times> string" where
  "determine_profile libraries gpu_inds memory_inds compute_inds =
     (let gs = gpu_score gpu_inds;
          ms = memory_score memory_inds;
          total = total_score gpu_inds memory_inds compute_inds;
          (mode, parts0) =
            (if gs \<ge> 3
             then (''gpu'', [''GPU recommended ('' @ str_of_nat (length gpu_inds) @ '' GPU indicators)''])
             else (''cpu'', []));
          (profile, conf, part) =
            (if gs \<ge> 3 then
               (''gpu'', min 0.9 (0.5 + of_nat gs * 0.1),
                ''Using GPU profile for deep learning workload'')
             else if total \<ge> 8 then
               (''large'', min 0.85 (0.5 + of_nat total * 0.05),
                ''Heavy computation detected - using large profile'')
             else if total \<ge> 4 then
               (''medium'', min 0.8 (0.5 + of_nat total * 0.05),
                ''Moderate resource needs - using medium profile'')
             else if ms \<ge> 2 then
               (''medium'', 0.7, ''Memory-intensive libraries detected'')
             else
               (''small'', 0.8, ''Simple script - using small profile''))
      in (profile, mode, conf, join ''. '' (parts0 @ [part] @ library_info libraries)))"

text \<open>\<open>ScriptAnalyzer.analyze\<close>, with \<open>self.gpu_available\<close> as the first argument.\<close>

definition analyze :: "bool \<Rightarrow> string \<Rightarrow> error + ScriptAnalysis" where
  "analyze gpu_available script_content =
     (if script_content = [] \<or> strip script_content = [] then
        Inr \<lparr>recommended_profile = ''small'', execution_mode = ''cpu'',
             detected_libraries = [], gpu_indicators = [], memory_indicators = [],
             compute_indicators = [], confidence = 1.0,
             reasoning = ''Empty or minimal script - using small profile''\<rparr>
      else
        let detected_libs = detect_libraries script_content in
        case detect_gpu_usage script_content detected_libs of
          Inl e \<Rightarrow> Inl e
        | Inr gpu_inds \<Rightarrow>
           (case detect_memory_usage detected_libs of
              Inl e \<Rightarrow> Inl e
            | Inr memory_inds \<Rightarrow>
               (let compute_inds = detect_compute_patterns script_content;
                    (profile, mode, conf, reason) =
                       determine_profile detected_libs gpu_inds memory_inds compute_inds;
                    fallback = (mode = ''gpu'' \<and> \<not> gpu_available)
                in Inr \<lparr>recommended_profile =
                          (if fallback \<and> profile = ''gpu'' then ''large'' else profile),
                        execution_mode = (if fallback then ''cpu'' else mode),
                        detected_libraries = detected_libs,
                        gpu_indicators = gpu_inds,
                        memory_indicators = memory_inds,
                        compute_indicators = compute_inds,
                        confidence = conf,
                        reasoning =
                          (if fallback then reason @ '' (GPU not available, using CPU fallback)''
                           else reason)\<rparr>)))"

text \<open>\<open>analyze_script(script_content, gpu_available)\<close>.\<close>

definition analyze_script :: "string \<Rightarrow> bool \<Rightarrow> error + ScriptAnalysis" where
  "analyze_script script_content gpu_available = analyze gpu_available script_content"

section \<open>Numbers and decoded JSON values\<close>

text \<open>
  The override values come out of \<open>json.loads\<close>: a number is a Python int or a float.
  A finite float is modelled by the rational it denotes, and the three special floats
  are kept apart; only the order of numbers is used. \<open>py_lt a b\<close> is Python's \<open>a < b\<close>
  (every comparison with NaN is false).
\<close>

datatype pynum = PInt int | PFloat rat | PInf | PNegInf | PNaN

fun py_lt :: "pynum \<Rightarrow> pynum \<Rightarrow> bool" where
  "py_lt PNaN b = False"
| "py_lt a PNaN = False"
| "py_lt PInf b = False"
| "py_lt a PInf = True"
| "py_lt a PNegInf = False"
| "py_lt PNegInf b = True"
| "py_lt (PInt a) (PInt b) = (a < b)"
| "py_lt (PInt a) (PFloat b) = (of_int a < b)"
| "py_lt (PFloat a) (PInt b) = (a < of_int b)"
| "py_lt (PFloat a) (PFloat b) = (a < b)"

text \<open>\<open>min(a, b)\<close> keeps \<open>a\<close> unless \<open>b < a\<close>; \<open>max(a, b)\<close> keeps \<open>a\<close> unless \<open>b > a\<close>.\<close>

definition py_min :: "pynum \<Rightarrow> pynum \<Rightarrow> pynum" where
  "py_min a b = (if py_lt b a then b else a)"

definition py_max :: "pynum \<Rightarrow> pynum \<Rightarrow> pynum" where
  "py_max a b = (if py_lt a b then b else a)"

text \<open>
  A decoded JSON value: a number, a boolean (a Python bool compares as the int 0 or 1),
  or anything else (a string, null, a list, a dict), which \<open>min\<close> cannot compare with an
  int and answers with a TypeError.
\<close>

datatype jval = JNum pynum | JBool bool | JOther

fun as_num :: "jval \<Rightarrow> error + pynum" where
  "as_num (JNum n) = Inr n"
| "as_num (JBool b) = Inr (PInt (if b then 1 else 0))"
| "as_num JOther = Inl TypeError"

text \<open>\<open>max(lo, min(v, hi))\<close>, the expression of every override.\<close>

definition clamp :: "int \<Rightarrow> int \<Rightarrow> jval \<Rightarrow> error + pynum" where
  "clamp lo hi v =
     (case as_num v of Inl e \<Rightarrow> Inl e | Inr n \<Rightarrow> Inr (py_max (PInt lo) (py_min n (PInt hi))))"

text \<open>
  A custom configuration is a dict from strings to decoded values. \<open>json.loads\<close>,
  \<open>json.dumps\<close> and the \<open>str\<close> of a dict, of a number and of an exception belong to
  Python's library: the model takes them as parameters, and what is proved holds for
  every choice of them. \<open>json_loads\<close> answers None where \<open>json.loads\<close> raises
  JSONDecodeError.
\<close>

type_synonym config = "(string \<times> jval) list"

record pylib =
  json_loads :: "string \<Rightarrow> config option"
  json_dumps :: "config \<Rightarrow> string"
  dict_str :: "config \<Rightarrow> string"
  num_str :: "pynum \<Rightarrow> string"
  error_str :: "error \<Rightarrow> string"

section \<open>Jobs (models.py) and resource profiles (core/config.py)\<close>

datatype JobStatus = PENDING | QUEUED | RUNNING | SUCCESS | FAILED | CANCELLED | TIMEOUT

text \<open>
  The columns of a job that the modelled code reads or writes. A datetime is a number of
  seconds on the UTC clock, so that \<open>(b - a).total_seconds()\<close> is \<open>b - a\<close>. The column
  \<open>id\<close> is \<open>job_id\<close> here.
\<close>

type_synonym datetime = rat

record Job =
  job_id :: nat
  user_id :: nat
  script_name :: string
  script_content :: "string option"
  status :: JobStatus
  execution_mode :: string
  resource_profile :: string
  timeout_seconds :: pynum
  container_id :: "string option"
  started_at :: "datetime option"
  finished_at :: "datetime option"
  queued_at :: "datetime option"
  duration_seconds :: "rat option"
  queue_time_seconds :: "rat option"
  gpu_used :: bool
  exit_code :: "int option"
  logs_location :: "string option"
  error_message :: "string option"
  auto_allocated :: bool
  analysis_reasoning :: "string option"

definition is_running :: "Job \<Rightarrow> bool" where
  "is_running job = (status job \<in> set [RUNNING, QUEUED])"

definition is_finished :: "Job \<Rightarrow> bool" where
  "is_finished job = (status job \<in> set [SUCCESS, FAILED, CANCELLED, TIMEOUT])"

definition is_cancellable :: "Job \<Rightarrow> bool" where
  "is_cancellable job = (status job \<in> set [PENDING, QUEUED, RUNNING])"

record limits =
  cpu_shares :: pynum
  memory_mb :: pynum
  timeout :: pynum
  gpu :: bool

text \<open>\<open>settings.RESOURCE_PROFILES\<close>; \<open>gpu\<close> says that the entry has the key \<open>"gpu": True\<close>.\<close>

definition RESOURCE_PROFILES :: "(string \<times> limits) list" where
  "RESOURCE_PROFILES =
    [(''small'', \<lparr>cpu_shares = PInt 512, memory_mb = PInt 512, timeout = PInt 60, gpu = False\<rparr>),
     (''medium'', \<lparr>cpu_shares = PInt 1024, memory_mb = PInt 2048, timeout = PInt 300, gpu = False\<rparr>),
     (''large'', \<lparr>cpu_shares = PInt 2048, memory_mb = PInt 4096, timeout = PInt 900, gpu = False\<rparr>),
     (''gpu'', \<lparr>cpu_shares = PInt 2048, memory_mb = PInt 6144, timeout = PInt 1800, gpu = True\<rparr>)]"

section \<open>Resource limits of a job (services/executor.py)\<close>

text \<open>
  \<open>re.search(r'CUSTOM_CONFIG:({.*?})', text)\<close>: the group of the leftmost match. After the
  opening brace the lazy \<open>.*?\<close> stops at the first closing brace and cannot pass a newline.
\<close>

fun lazy_brace :: "string \<Rightarrow> string option" where
  "lazy_brace [] = None"
| "lazy_brace (x # xs) =
     (if x = CHR ''}'' then Some []
      else if x = CHR 0x0A then None
      else map_option (\<lambda>body. x # body) (lazy_brace xs))"

fun custom_config_search :: "string \<Rightarrow> string option" where
  "custom_config_search [] = None"
| "custom_config_search (x # xs) =
     (if startswith (x # xs) ''CUSTOM_CONFIG:{'' then
        (case lazy_brace (drop 15 (x # xs)) of
           Some body \<Rightarrow> Some (''{'' @ body @ ''}'')
         | None \<Rightarrow> custom_config_search xs)
      else custom_config_search xs)"

text \<open>
  The three overrides, applied in the order of the source. An exception leaves the
  block with the limits as they are at that moment, which the handler of
  \<open>get_resource_limits\<close> may keep.
\<close>

definition override ::
  "string \<Rightarrow> int \<Rightarrow> int \<Rightarrow> (pynum \<Rightarrow> limits \<Rightarrow> limits) \<Rightarrow> config \<Rightarrow> limits \<Rightarrow> (error \<times> limits) + limits" where
  "override key lo hi set_field custom_config l =
     (if key \<in> set (keys custom_config) then
        (case dict_get custom_config key of
           Inl e \<Rightarrow> Inl (e, l)
         | Inr v \<Rightarrow> (case clamp lo hi v of Inl e \<Rightarrow> Inl (e, l) | Inr n \<Rightarrow> Inr (set_field n l)))
      else Inr l)"

definition apply_custom_config :: "config \<Rightarrow> limits \<Rightarrow> (error \<times> limits) + limits" where
  "apply_custom_config custom_config l0 =
     (case override ''memory_mb'' 256 8192 (\<lambda>n l. l\<lparr>memory_mb := n\<rparr>) custom_config l0 of
        Inl el \<Rightarrow> Inl el
      | Inr l1 \<Rightarrow>
     (case override ''cpu_shares'' 256 4096 (\<lambda>n l. l\<lparr>cpu_shares := n\<rparr>) custom_config l1 of
        Inl el \<Rightarrow> Inl el
      | Inr l2 \<Rightarrow>
          override ''timeout'' 10 3600 (\<lambda>n l. l\<lparr>timeout := n\<rparr>) custom_config l2))"

text \<open>
  \<open>DockerExecutor.get_resource_limits(profile, job)\<close>. The handler of the source catches
  JSONDecodeError and KeyError and keeps the limits as they are; a TypeError is not
  caught.
\<close>

definition resolve_profile :: "string \<Rightarrow> string" where
  "resolve_profile profile = (if profile \<in> set (keys RESOURCE_PROFILES) then profile else ''medium'')"

definition get_resource_limits :: "pylib \<Rightarrow> string \<Rightarrow> Job option \<Rightarrow> error + limits" where
  "get_resource_limits L profile job =
     (case dict_get RESOURCE_PROFILES (resolve_profile profile) of
        Inl e \<Rightarrow> Inl e
      | Inr l0 \<Rightarrow>
         (case job of
            None \<Rightarrow> Inr l0
          | Some j \<Rightarrow>
             (case analysis_reasoning j of
                None \<Rightarrow> Inr l0
              | Some text \<Rightarrow>
                 (if text = [] then Inr l0
                  else case custom_config_search text of
                         None \<Rightarrow> Inr l0
                       | Some payload \<Rightarrow>
                          (case json_loads L payload of
                             None \<Rightarrow> Inr l0
                           | Some custom_config \<Rightarrow>
                              (case apply_custom_config custom_config l0 of
                                 Inl (KeyError k, l) \<Rightarrow> Inr l
                               | Inl (e, l) \<Rightarrow> Inl e
                               | Inr l \<Rightarrow> Inr l))))))"

section \<open>Job submission (schemas.py, api/routes/jobs.py)\<close>

datatype ExecutionModeEnum = CPU | GPU | AUTO

datatype ResourceProfileEnum = SMALL | MEDIUM | LARGE | GPU_PROFILE | AUTO_PROFILE

text \<open>The \<open>.value\<close> of a profile of the request (\<open>ResourceProfileEnum.GPU\<close> and
  \<open>ResourceProfileEnum.AUTO\<close> are \<open>GPU_PROFILE\<close> and \<open>AUTO_PROFILE\<close> here).\<close>

fun profile_value :: "ResourceProfileEnum \<Rightarrow> string" where
  "profile_value SMALL = ''small''"
| "profile_value MEDIUM = ''medium''"
| "profile_value LARGE = ''large''"
| "profile_value GPU_PROFILE = ''gpu''"
| "profile_value AUTO_PROFILE = ''auto''"

fun mode_value :: "ExecutionModeEnum \<Rightarrow> string" where
  "mode_value CPU = ''cpu''"
| "mode_value GPU = ''gpu''"
| "mode_value AUTO = ''auto''"

record JobSubmitRequest =
  code :: string
  script_name :: string
  execution_mode :: ExecutionModeEnum
  resource_profile :: ResourceProfileEnum
  timeout :: int
  gpu_enabled :: bool
  custom_config :: "config option"

text \<open>The constraints of the schema: \<open>code\<close> has \<open>min_length=1\<close>, \<open>script_name\<close> has
  \<open>max_length=255\<close>, \<open>timeout\<close> has \<open>ge=10, le=3600\<close>.\<close>

definition valid_request :: "JobSubmitRequest \<Rightarrow> bool" where
  "valid_request request =
     (length (code request) \<ge> 1 \<and> length (JobSubmitRequest.script_name request) \<le> 255 \<and>
      10 \<le> JobSubmitRequest.timeout request \<and> JobSubmitRequest.timeout request \<le> 3600)"

text \<open>
  \<open>submit_job\<close> up to the job record it stores. \<open>is_available\<close> and \<open>gpu_available\<close> are the
  two attributes of the executor, \<open>current_user_id\<close> the id of the user, \<open>new_id\<close> the
  primary key that the database gives the row.
\<close>

definition submit_job ::
  "pylib \<Rightarrow> bool \<Rightarrow> bool \<Rightarrow> nat \<Rightarrow> nat \<Rightarrow> JobSubmitRequest \<Rightarrow> error + Job" where
  "submit_job L is_available gpu_available current_user_id new_id request =
     (case analyze_script (code request) (if is_available then gpu_available else False) of
        Inl e \<Rightarrow> Inl e
      | Inr analysis \<Rightarrow>
         (let exec_mode0 = ScriptAnalysis.execution_mode analysis;
              (profile, exec_mode) =
                (if profile_value (JobSubmitRequest.resource_profile request) = ''auto''
                 then (recommended_profile analysis, exec_mode0)
                 else (profile_value (JobSubmitRequest.resource_profile request),
                       if profile_value (JobSubmitRequest.resource_profile request) = ''gpu''
                       then ''gpu'' else exec_mode0));
              cc = (case custom_config request of None \<Rightarrow> [] | Some c \<Rightarrow> c)
          in case (if cc \<noteq> [] \<and> ''timeout'' \<in> set (keys cc)
                   then (case dict_get cc ''timeout'' of
                           Inl e \<Rightarrow> Inl e | Inr v \<Rightarrow> clamp 10 3600 v)
                   else Inr (PInt (JobSubmitRequest.timeout request))) of
               Inl e \<Rightarrow> Inl e
             | Inr timeout_secs \<Rightarrow>
                Inr \<lparr>job_id = new_id,
                     user_id = current_user_id,
                     script_name = JobSubmitRequest.script_name request,
                     script_content = Some (code request),
                     status = PENDING,
                     execution_mode = exec_mode,
                     resource_profile = profile,
                     timeout_seconds = timeout_secs,
                     container_id = None,
                     started_at = None,
                     finished_at = None,
                     queued_at = None,
                     duration_seconds = None,
                     queue_time_seconds = None,
                     gpu_used = False,
                     exit_code = None,
                     logs_location = None,
                     error_message = None,
                     auto_allocated = True,
                     analysis_reasoning =
                       Some (if cc \<noteq> []
                             then reasoning analysis @ '' | '' @ ''Custom config: '' @ dict_str L cc
                                  @ '' | CUSTOM_CONFIG:'' @ json_dumps L cc
                             else reasoning analysis)\<rparr>))"

section \<open>Supervision of a running job (services/executor.py)\<close>

text \<open>
  The container runtime is outside the repository. What the supervisor sees of it in one
  round of its loop is a \<open>poll\<close>: the state after \<open>container.reload()\<close> (or that the call
  raised), the seconds elapsed since the loop began, whether \<open>container.stop\<close> would raise,
  and whether the task is cancelled while it sleeps.
\<close>

datatype reload = Exited int | Alive | ReloadFails

record poll =
  observed :: reload
  elapsed :: rat
  stop_fails :: bool
  sleep_cancelled :: bool

record wait_result =
  exit_code :: int
  logs :: string
  timeout :: bool
  cancelled :: bool

text \<open>
  \<open>_wait_for_container(container, timeout, on_log)\<close>: one equation per round of the
  \<open>while True\<close> loop. None says that the rounds given do not end the wait; \<open>Inl\<close> is an
  exception that leaves the function. \<open>final_logs\<close> is the text that the \<open>finally\<close> block
  reads.
\<close>

fun wait_for_container :: "pynum \<Rightarrow> string \<Rightarrow> poll list \<Rightarrow> (error + wait_result) option" where
  "wait_for_container timeout_v final_logs [] = None"
| "wait_for_container timeout_v final_logs (p # ps) =
     (case observed p of
        ReloadFails \<Rightarrow> Some (Inl NotFound)
      | Exited c \<Rightarrow>
          Some (Inr \<lparr>exit_code = c, logs = final_logs, timeout = False, cancelled = False\<rparr>)
      | Alive \<Rightarrow>
          (if py_lt timeout_v (PFloat (elapsed p)) then
             (if stop_fails p then Some (Inl APIError)
              else Some (Inr \<lparr>exit_code = - 1, logs = final_logs, timeout = True, cancelled = False\<rparr>))
           else if sleep_cancelled p then
             (if stop_fails p then Some (Inl APIError)
              else Some (Inr \<lparr>exit_code = - 1, logs = final_logs, timeout = False, cancelled = True\<rparr>))
           else wait_for_container timeout_v final_logs ps))"

text \<open>The start of a run in \<open>execute_job\<close>: the job enters \<open>running\<close>.\<close>

definition start_running :: "datetime \<Rightarrow> Job \<Rightarrow> Job" where
  "start_running now job =
     job\<lparr>status := RUNNING, started_at := Some now,
         queue_time_seconds :=
           (case queued_at job of Some q \<Rightarrow> Some (now - q) | None \<Rightarrow> queue_time_seconds job)\<rparr>"

text \<open>The handler \<open>except Exception\<close> of \<open>execute_job\<close>.\<close>

definition execution_failed :: "pylib \<Rightarrow> datetime \<Rightarrow> error \<Rightarrow> Job \<Rightarrow> Job" where
  "execution_failed L now e job =
     job\<lparr>status := FAILED,
         error_message := Some (''Execution error: '' @ error_str L e),
         finished_at := Some now,
         duration_seconds :=
           (case started_at job of Some s \<Rightarrow> Some (now - s) | None \<Rightarrow> duration_seconds job)\<rparr>"

text \<open>\<open>execute_job\<close> from "Process result" to "Set GPU usage": the final status is decided
  by the first of cancelled, timeout, exit code 0 that holds.\<close>

definition process_result :: "pylib \<Rightarrow> bool \<Rightarrow> datetime \<Rightarrow> pynum \<Rightarrow> wait_result \<Rightarrow> Job \<Rightarrow> Job" where
  "process_result L gpu_available now timeout_v result job =
     (let job1 = job\<lparr>Job.exit_code := Some (wait_result.exit_code result),
                     finished_at := Some now,
                     duration_seconds :=
                       (case started_at job of Some s \<Rightarrow> Some (now - s)
                        | None \<Rightarrow> duration_seconds job)\<rparr>;
          job2 =
            (if cancelled result then job1\<lparr>status := CANCELLED\<rparr>
             else if wait_result.timeout result then
               job1\<lparr>status := TIMEOUT,
                    error_message :=
                      Some (''Job exceeded timeout of '' @ num_str L timeout_v @ '' seconds'')\<rparr>
             else if wait_result.exit_code result = 0 then job1\<lparr>status := SUCCESS\<rparr>
             else job1\<lparr>status := FAILED,
                       error_message :=
                         Some (''Script exited with code ''
                               @ num_str L (PInt (wait_result.exit_code result)))\<rparr>)
      in job2\<lparr>logs_location := Some (''data/logs/'' @ str_of_nat (job_id job) @ ''/output.log''),
              gpu_used := (Job.execution_mode job = ''gpu'' \<and> gpu_available)\<rparr>)"

text \<open>
  \<open>execute_job\<close> from "Wait for container with timeout" on: the limits, the effective
  timeout, the wait, and the final record, which the session commits. Writing the log
  file and the commit are taken to succeed.
\<close>

definition effective_timeout :: "pylib \<Rightarrow> Job \<Rightarrow> error + pynum" where
  "effective_timeout L job =
     (case get_resource_limits L (Job.resource_profile job) (Some job) of
        Inl e \<Rightarrow> Inl e
      | Inr l \<Rightarrow> Inr (py_min (timeout_seconds job) (limits.timeout l)))"

definition supervise ::
  "pylib \<Rightarrow> bool \<Rightarrow> string \<Rightarrow> poll list \<Rightarrow> datetime \<Rightarrow> Job \<Rightarrow> Job option" where
  "supervise L gpu_available final_logs polls now job =
     (case effective_timeout L job of
        Inl e \<Rightarrow> Some (execution_failed L now e job)
      | Inr timeout_v \<Rightarrow>
         (case wait_for_container timeout_v final_logs polls of
            None \<Rightarrow> None
          | Some (Inl e) \<Rightarrow> Some (execution_failed L now e job)
          | Some (Inr result) \<Rightarrow> Some (process_result L gpu_available now timeout_v result job)))"

section \<open>Cancellation (services/executor.py, api/routes/jobs.py, api/routes/admin.py)\<close>

text \<open>
  The container of a job, as far as the cancellation path acts on it: \<open>kill\<close> ends a
  running container with the code of SIGKILL and fails on any other, \<open>stop\<close> ends a running
  one, \<open>remove(force=True)\<close> removes any container that exists, and \<open>reload\<close> raises once
  the container is removed.
\<close>

datatype container = CRunning | CExited int | CRemoved

fun docker_kill :: "container \<Rightarrow> error + container" where
  "docker_kill CRunning = Inr (CExited 137)"
| "docker_kill (CExited c) = Inl APIError"
| "docker_kill CRemoved = Inl NotFound"

fun docker_stop :: "container \<Rightarrow> error + container" where
  "docker_stop CRunning = Inr (CExited 137)"
| "docker_stop (CExited c) = Inr (CExited c)"
| "docker_stop CRemoved = Inl NotFound"

fun docker_remove :: "container \<Rightarrow> error + container" where
  "docker_remove CRemoved = Inl NotFound"
| "docker_remove c = Inr CRemoved"

fun docker_reload :: "container \<Rightarrow> reload" where
  "docker_reload CRunning = Alive"
| "docker_reload (CExited c) = Exited c"
| "docker_reload CRemoved = ReloadFails"

text \<open>\<open>DockerExecutor.cancel_job\<close>: the container afterwards and the boolean returned.
  \<open>tracked\<close> says that the job is in \<open>running_containers\<close>.\<close>

definition executor_cancel_job :: "bool \<Rightarrow> container \<Rightarrow> container \<times> bool" where
  "executor_cancel_job tracked c =
     (if c = CRemoved then (c, tracked)
      else
        let c1 = (case docker_kill c of
                    Inr k \<Rightarrow> k
                  | Inl NotFound \<Rightarrow> c
                  | Inl e \<Rightarrow> (case docker_stop c of Inr k \<Rightarrow> k | Inl e' \<Rightarrow> c));
            c2 = (case docker_remove c1 of Inr k \<Rightarrow> k | Inl e \<Rightarrow> c1)
        in (c2, True))"

text \<open>
  The route \<open>POST /api/jobs/{job_id}/cancel\<close>. \<open>row\<close> is the job that the query finds.
  Both status checks of the source only write to the log, so the update below is
  reached for every status.
\<close>

definition cancel_job ::
  "Job option \<Rightarrow> nat \<Rightarrow> bool \<Rightarrow> datetime \<Rightarrow> bool \<Rightarrow> container \<Rightarrow> error + (Job \<times> container)" where
  "cancel_job row current_user_id is_admin now tracked c =
     (case row of
        None \<Rightarrow> Inl (HTTPException 404)
      | Some job \<Rightarrow>
          if user_id job \<noteq> current_user_id \<and> \<not> is_admin then Inl (HTTPException 403)
          else
            Inr (job\<lparr>status := CANCELLED,
                     finished_at := Some now,
                     duration_seconds :=
                       (case started_at job of Some s \<Rightarrow> Some (now - s)
                        | None \<Rightarrow> duration_seconds job)\<rparr>,
                 fst (executor_cancel_job tracked c)))"

text \<open>The route \<open>POST /api/admin/jobs/{job_id}/cancel\<close>, for a caller who is an admin.\<close>

definition cancel_job_admin ::
  "Job option \<Rightarrow> string \<Rightarrow> datetime \<Rightarrow> bool \<Rightarrow> container \<Rightarrow> error + (Job \<times> container)" where
  "cancel_job_admin row admin_email now tracked c =
     (case row of
        None \<Rightarrow> Inl (HTTPException 404)
      | Some job \<Rightarrow>
          if \<not> is_cancellable job then Inl (HTTPException 400)
          else
            Inr (job\<lparr>status := CANCELLED,
                     finished_at := Some now,
                     duration_seconds :=
                       (case started_at job of Some s \<Rightarrow> Some (now - s)
                        | None \<Rightarrow> duration_seconds job),
                     error_message := Some (''Cancelled by admin: '' @ admin_email)\<rparr>,
                 fst (executor_cancel_job tracked c)))"

section \<open>Replay of a finished job's log (api/routes/websocket.py)\<close>

text \<open>
  Reading the log file in text mode turns \<open>\r\n\<close> and \<open>\r\<close> into \<open>\n\<close>; \<open>readlines\<close> cuts
  after every newline and keeps it.
\<close>

fun universal_newlines :: "string \<Rightarrow> string" where
  "universal_newlines [] = []"
| "universal_newlines [x] = [if x = CHR 0x0D then CHR 0x0A else x]"
| "universal_newlines (x # y # ys) =
     (if x = CHR 0x0D then
        (if y = CHR 0x0A then CHR 0x0A # universal_newlines ys
         else CHR 0x0A # universal_newlines (y # ys))
      else x # universal_newlines (y # ys))"

fun split_keepends :: "string \<Rightarrow> string \<Rightarrow> string list" where
  "split_keepends acc [] = (if acc = [] then [] else [rev acc])"
| "split_keepends acc (x # xs) =
     (if x = CHR 0x0A then rev (x # acc) # split_keepends [] xs
      else split_keepends (x # acc) xs)"

definition readlines :: "string \<Rightarrow> string list" where
  "readlines content = split_keepends [] (universal_newlines content)"

text \<open>The messages sent on the socket, without their timestamps: \<open>Log job stream message
  line_number\<close>.\<close>

datatype event =
    Connected nat JobStatus
  | Log nat string string nat
  | Complete nat JobStatus

text \<open>\<open>send_existing_logs(websocket, job_id, start)\<close>; \<open>file\<close> is the content of the job's
  \<open>output.log\<close>, None when the file does not exist.\<close>

definition send_existing_logs :: "string option \<Rightarrow> nat \<Rightarrow> nat \<Rightarrow> event list" where
  "send_existing_logs file jid start =
     (case file of
        None \<Rightarrow> []
      | Some content \<Rightarrow>
          map (\<lambda>(i, line). Log jid ''stdout'' (rstrip line) (i + 1))
            (filter (\<lambda>(i, line). strip line \<noteq> [])
               (zip [start ..< length (readlines content)] (drop start (readlines content)))))"

text \<open>
  \<open>websocket_job_logs\<close> up to the branch of a job already finished. \<open>token_user\<close> is what
  \<open>verify_token\<close> returns, \<open>row\<close> the job with the id asked for. \<open>Streaming\<close> holds what was
  sent before the loop of a job that is not finished; the loop is not modelled.
\<close>

datatype ws_result = Closed nat | Sent "event list" | Streaming "event list"

definition websocket_job_logs ::
  "nat option \<Rightarrow> Job option \<Rightarrow> string option \<Rightarrow> nat \<Rightarrow> ws_result" where
  "websocket_job_logs token_user row file jid =
     (case token_user of
        None \<Rightarrow> Closed 4001
      | Some uid \<Rightarrow>
         (if uid = 0 then Closed 4001
          else case row of
                 None \<Rightarrow> Closed 4004
               | Some job \<Rightarrow>
                  (if user_id job \<noteq> uid then Closed 4004
                   else let initial_status = status job in
                     if initial_status \<in> set [SUCCESS, FAILED, CANCELLED, TIMEOUT]
                     then Sent (Connected jid initial_status
                                # send_existing_logs file jid 0
                                @ [Complete jid initial_status])
                     else Streaming [Connected jid initial_status])))"

section \<open>Notions used in the statements\<close>

text \<open>Python's \<open>a <= b\<close> on numbers, and a number lying between two integer bounds.\<close>

fun py_le :: "pynum \<Rightarrow> pynum \<Rightarrow> bool" where
  "py_le PNaN b = False"
| "py_le a PNaN = False"
| "py_le a PInf = True"
| "py_le PInf b = False"
| "py_le PNegInf b = True"
| "py_le a PNegInf = False"
| "py_le (PInt a) (PInt b) = (a \<le> b)"
| "py_le (PInt a) (PFloat b) = (of_int a \<le> b)"
| "py_le (PFloat a) (PInt b) = (a \<le> of_int b)"
| "py_le (PFloat a) (PFloat b) = (a \<le> b)"

definition in_range :: "int \<Rightarrow> int \<Rightarrow> pynum \<Rightarrow> bool" where
  "in_range lo hi v = (py_le (PInt lo) v \<and> py_le v (PInt hi))"

text \<open>The configuration that \<open>get_resource_limits\<close> decodes from a job, if any, and the
  limits of the profile before any override.\<close>

definition decoded_config :: "pylib \<Rightarrow> Job \<Rightarrow> config option" where
  "decoded_config L job =
     (case analysis_reasoning job of
        None \<Rightarrow> None
      | Some text \<Rightarrow>
          (case custom_config_search text of
             None \<Rightarrow> None
           | Some payload \<Rightarrow> json_loads L payload))"

definition profile_defaults :: "string \<Rightarrow> error + limits" where
  "profile_defaults profile = dict_get RESOURCE_PROFILES (resolve_profile profile)"

text \<open>
  The value that an override of \<open>key\<close> puts into the limits: the clamped entry of the
  configuration, None when the configuration has no such entry (or one that is no
  number). \<open>timeout_override\<close> is that value for the timeout of the configuration decoded
  from a job, \<open>request_config\<close> the configuration that \<open>submit_job\<close> works with.
\<close>

definition override_value :: "config \<Rightarrow> string \<Rightarrow> int \<Rightarrow> int \<Rightarrow> pynum option" where
  "override_value cfg key lo hi =
     (if key \<in> set (keys cfg) then
        (case dict_get cfg key of
           Inl e \<Rightarrow> None
         | Inr v \<Rightarrow> (case clamp lo hi v of Inl e \<Rightarrow> None | Inr n \<Rightarrow> Some n))
      else None)"

definition timeout_override :: "pylib \<Rightarrow> Job \<Rightarrow> pynum option" where
  "timeout_override L job =
     (case decoded_config L job of
        None \<Rightarrow> None
      | Some cfg \<Rightarrow> override_value cfg ''timeout'' 10 3600)"

definition request_config :: "JobSubmitRequest \<Rightarrow> config" where
  "request_config request = (case custom_config request of None \<Rightarrow> [] | Some c \<Rightarrow> c)"

text \<open>The decision table of the analyzer, on the three scores.\<close>

definition decision_table :: "nat \<Rightarrow> nat \<Rightarrow> nat \<Rightarrow> string \<times> string" where
  "decision_table gs ms tot =
     (if gs \<ge> 3 then (''gpu'', ''gpu'')
      else if tot \<ge> 8 then (''large'', ''cpu'')
      else if tot \<ge> 4 then (''medium'', ''cpu'')
      else if ms \<ge> 2 then (''medium'', ''cpu'')
      else (''small'', ''cpu''))"

text \<open>The total score of the indicators that an analysis reports.\<close>

definition analysis_score :: "ScriptAnalysis \<Rightarrow> nat" where
  "analysis_score a = total_score (gpu_indicators a) (memory_indicators a) (compute_indicators a)"

text \<open>The row of the decision table that the scores of an analysis select: the profile
  that \<open>_determine_profile\<close> picks, before \<open>analyze\<close> turns a pick of gpu into large when
  no GPU is available.\<close>

definition picked_profile :: "ScriptAnalysis \<Rightarrow> string" where
  "picked_profile a =
     fst (decision_table (gpu_score (gpu_indicators a)) (memory_score (memory_indicators a))
            (analysis_score a))"

text \<open>What the statements below read off an analysis: the profile returned, the total
  score, the confidence; and the row picked with the two scores that order it.\<close>

definition analysis_summary :: "ScriptAnalysis \<Rightarrow> string \<times> nat \<times> rat" where
  "analysis_summary a = (recommended_profile a, analysis_score a, confidence a)"

definition analysis_row :: "ScriptAnalysis \<Rightarrow> string \<times> nat \<times> nat" where
  "analysis_row a = (picked_profile a, gpu_score (gpu_indicators a), analysis_score a)"

text \<open>The text of a log event.\<close>

fun log_message :: "event \<Rightarrow> string option" where
  "log_message (Log j s m n) = Some m"
| "log_message e = None"

text \<open>
  A user's cancel request that reaches a job under supervision: the route runs to its
  commit without giving up control, then the supervisor makes its next round \<open>p\<close>, on the
  container as the route left it, and commits its own result over the row.
\<close>

definition cancel_then_poll ::
  "pylib \<Rightarrow> bool \<Rightarrow> string \<Rightarrow> poll \<Rightarrow> datetime \<Rightarrow> datetime \<Rightarrow> Job \<Rightarrow> container \<Rightarrow> Job option" where
  "cancel_then_poll L gpu_available final_logs p t_cancel t_final job c =
     (case cancel_job (Some job) (user_id job) False t_cancel True c of
        Inl e \<Rightarrow> None
      | Inr (job1, c1) \<Rightarrow>
          supervise L gpu_available final_logs [p\<lparr>observed := docker_reload c1\<rparr>] t_final job1)"

section \<open>An instance of the library parameters, for the examples\<close>

text \<open>
  \<open>example_lib\<close> agrees with Python on dicts whose values are integers and booleans, which
  is all that the examples below contain: \<open>flat_dumps\<close> writes such a dict as \<open>json.dumps\<close>
  does, \<open>flat_loads\<close> decodes a flat JSON object of integers, booleans, \<open>null\<close> and plain
  strings and is None on every other text.
\<close>

text \<open>\<open>str(i)\<close> for an int, by division of the int itself.\<close>

function pos_digits :: "int \<Rightarrow> string" where
  "pos_digits n = (if n < 10 then [digit_char (nat n)]
                   else pos_digits (n div 10) @ [digit_char (nat (n mod 10))])"
  by pat_completeness auto
termination
  by (relation "measure nat") auto

definition str_of_int :: "int \<Rightarrow> string" where
  "str_of_int i = (if i < 0 then ''-'' @ pos_digits (- i) else pos_digits i)"

fun flat_num_str :: "pynum \<Rightarrow> string" where
  "flat_num_str (PInt i) = str_of_int i"
| "flat_num_str (PFloat q) = str_of_int (floor q) @ ''.0''"
| "flat_num_str PInf = ''inf''"
| "flat_num_str PNegInf = ''-inf''"
| "flat_num_str PNaN = ''nan''"

fun flat_json_value :: "jval \<Rightarrow> string" where
  "flat_json_value (JNum n) = flat_num_str n"
| "flat_json_value (JBool b) = (if b then ''true'' else ''false'')"
| "flat_json_value JOther = ''null''"

fun flat_py_value :: "jval \<Rightarrow> string" where
  "flat_py_value (JNum n) = flat_num_str n"
| "flat_py_value (JBool b) = (if b then ''True'' else ''False'')"
| "flat_py_value JOther = ''None''"

definition flat_dumps :: "config \<Rightarrow> string" where
  "flat_dumps cfg =
     ''{'' @ join '', '' (map (\<lambda>(k, v). [CHR 0x22] @ k @ [CHR 0x22] @ '': '' @ flat_json_value v) cfg)
     @ ''}''"

definition flat_str :: "config \<Rightarrow> string" where
  "flat_str cfg =
     ''{'' @ join '', '' (map (\<lambda>(k, v). [CHR 0x27] @ k @ [CHR 0x27] @ '': '' @ flat_py_value v) cfg)
     @ ''}''"

definition json_ws :: "string \<Rightarrow> string" where
  "json_ws s = dropWhile (\<lambda>c. c \<in> set [CHR 0x20, CHR 0x09, CHR 0x0A, CHR 0x0D]) s"

definition digit_val :: "char \<Rightarrow> int" where
  "digit_val c = (case map_of (zip ''0123456789'' [0, 1, 2, 3, 4, 5, 6, 7, 8, 9]) c of
                    Some d \<Rightarrow> d | None \<Rightarrow> 0)"

definition int_of_digits :: "string \<Rightarrow> int" where
  "int_of_digits ds = foldl (\<lambda>n c. 10 * n + digit_val c) 0 ds"

definition flat_int :: "string \<Rightarrow> (jval \<times> string) option" where
  "flat_int s =
     (let neg = startswith s ''-''; r = (if neg then drop 1 s else s);
          ds = takeWhile isdigit r; rest = dropWhile isdigit r
      in if ds = [] \<or> (length ds > 1 \<and> startswith ds ''0'')
            \<or> startswith rest ''.'' \<or> startswith rest ''e'' \<or> startswith rest ''E''
         then None
         else Some (JNum (PInt (if neg then - int_of_digits ds else int_of_digits ds)),
                    rest))"

definition flat_string :: "string \<Rightarrow> (string \<times> string) option" where
  "flat_string s =
     (if startswith s [CHR 0x22] then
        let plain = (\<lambda>c. c \<noteq> CHR 0x22 \<and> c \<noteq> CHR 0x5C \<and> (of_char c :: nat) \<ge> 32);
            body = takeWhile plain (drop 1 s); rest = dropWhile plain (drop 1 s)
        in if startswith rest [CHR 0x22] then Some (body, drop 1 rest) else None
      else None)"

definition flat_value :: "string \<Rightarrow> (jval \<times> string) option" where
  "flat_value s =
     (if startswith s ''true'' then Some (JBool True, drop 4 s)
      else if startswith s ''false'' then Some (JBool False, drop 5 s)
      else if startswith s ''null'' then Some (JOther, drop 4 s)
      else if startswith s [CHR 0x22] then map_option (\<lambda>(b, r). (JOther, r)) (flat_string s)
      else flat_int s)"

text \<open>A key decoded twice keeps its place and takes the later value, as in a dict.\<close>

fun dict_set :: "config \<Rightarrow> string \<Rightarrow> jval \<Rightarrow> config" where
  "dict_set [] k v = [(k, v)]"
| "dict_set ((k', v') # kvs) k v = (if k' = k then (k, v) # kvs else (k', v') # dict_set kvs k v)"

fun flat_members :: "nat \<Rightarrow> config \<Rightarrow> string \<Rightarrow> config option" where
  "flat_members 0 acc s = None"
| "flat_members (Suc fuel) acc s =
     (case flat_string (json_ws s) of
        None \<Rightarrow> None
      | Some (k, r1) \<Rightarrow>
         (if \<not> startswith (json_ws r1) '':'' then None
          else case flat_value (json_ws (drop 1 (json_ws r1))) of
                 None \<Rightarrow> None
               | Some (v, r2) \<Rightarrow>
                  (if startswith (json_ws r2) '','' then
                     flat_members fuel (dict_set acc k v) (drop 1 (json_ws r2))
                   else if startswith (json_ws r2) ''}'' \<and> json_ws (drop 1 (json_ws r2)) = []
                   then Some (dict_set acc k v)
                   else None)))"

definition flat_loads :: "string \<Rightarrow> config option" where
  "flat_loads s =
     (if \<not> startswith (json_ws s) ''{'' then None
      else let r = json_ws (drop 1 (json_ws s)) in
        if startswith r ''}'' then (if json_ws (drop 1 r) = [] then Some [] else None)
        else flat_members (length s) [] r)"

fun flat_error_str :: "error \<Rightarrow> string" where
  "flat_error_str (KeyError k) = [CHR 0x27] @ k @ [CHR 0x27]"
| "flat_error_str TypeError = ''unsupported operand''"
| "flat_error_str (HTTPException n) = str_of_nat n"
| "flat_error_str NotFound = ''404 Client Error: Not Found''"
| "flat_error_str APIError = ''500 Server Error''"

definition example_lib :: pylib where
  "example_lib = \<lparr>json_loads = flat_loads, json_dumps = flat_dumps, dict_str = flat_str,
                  num_str = flat_num_str, error_str = flat_error_str\<rparr>"

text \<open>Scripts for the examples: two, three and four imports of memory-intensive
  libraries, and the four with an import of jax.\<close>

definition two_imports :: string where
  "two_imports = ''import cv2\<newline>import PIL''"

definition three_imports :: string where
  "three_imports = ''import cv2\<newline>import PIL\<newline>import dask''"

definition four_imports :: string where
  "four_imports = ''import cv2\<newline>import PIL\<newline>import dask\<newline>import vaex''"

definition four_imports_jax :: string where
  "four_imports_jax =
     ''import cv2\<newline>import PIL\<newline>import dask\<newline>import vaex\<newline>import jax''"

text \<open>A request and jobs for the examples.\<close>

definition example_request :: JobSubmitRequest where
  "example_request =
     \<lparr>code = ''print(1)'', script_name = ''script.py'', execution_mode = AUTO,
      resource_profile = AUTO_PROFILE, timeout = 300, gpu_enabled = False,
      custom_config = None\<rparr>"

definition example_job :: Job where
  "example_job =
     \<lparr>job_id = 7, user_id = 1, script_name = ''script.py'', script_content = Some ''print(1)'',
      status = PENDING, execution_mode = ''cpu'', resource_profile = ''small'',
      timeout_seconds = PInt 300, container_id = None, started_at = None, finished_at = None,
      queued_at = None, duration_seconds = None, queue_time_seconds = None, gpu_used = False,
      exit_code = None, logs_location = None, error_message = None, auto_allocated = True,
      analysis_reasoning = Some ''Simple script - using small profile''\<rparr>"

definition example_finished_job :: Job where
  "example_finished_job =
     example_job\<lparr>status := SUCCESS, started_at := Some 10, finished_at := Some 20,
                 duration_seconds := Some 10, Job.exit_code := Some 0\<rparr>"

text \<open>A request with a custom timeout, one with a custom memory ceiling, the jobs that
  \<open>submit_job\<close> stores for them, and a job whose stored configuration is not JSON.\<close>

definition example_timeout_request :: JobSubmitRequest where
  "example_timeout_request =
     example_request\<lparr>JobSubmitRequest.resource_profile := SMALL,
                     custom_config := Some [(''timeout'', JNum (PInt 3000))]\<rparr>"

definition example_timeout_job :: Job where
  "example_timeout_job =
     (case submit_job example_lib True False 1 7 example_timeout_request of
        Inr job \<Rightarrow> job | Inl e \<Rightarrow> example_job)"

definition example_memory_request :: JobSubmitRequest where
  "example_memory_request =
     example_request\<lparr>JobSubmitRequest.resource_profile := SMALL,
                     custom_config := Some [(''memory_mb'', JNum (PInt 100000))]\<rparr>"

definition example_memory_job :: Job where
  "example_memory_job =
     (case submit_job example_lib True False 1 8 example_memory_request of
        Inr job \<Rightarrow> job | Inl e \<Rightarrow> example_job)"

text \<open>A request for a memory ceiling of 100000 whose configuration has one more entry,
  with a closing brace in its key, and the job that \<open>submit_job\<close> stores for it.\<close>

definition example_brace_request :: JobSubmitRequest where
  "example_brace_request =
     example_request\<lparr>JobSubmitRequest.resource_profile := SMALL,
                     custom_config := Some [(''a}'', JNum (PInt 1)),
                                            (''memory_mb'', JNum (PInt 100000))]\<rparr>"

definition example_brace_job :: Job where
  "example_brace_job =
     (case submit_job example_lib True False 1 9 example_brace_request of
        Inr job \<Rightarrow> job | Inl e \<Rightarrow> example_job)"

definition example_broken_job :: Job where
  "example_broken_job =
     example_job\<lparr>analysis_reasoning :=
       Some ''Simple script - using small profile | CUSTOM_CONFIG:{memory_mb=100000}''\<rparr>"

definition example_poll :: poll where
  "example_poll = \<lparr>observed = Alive, elapsed = 5, stop_fails = False, sleep_cancelled = False\<rparr>"

section \<open>The analyzer returns for every script\<close>

lemma dict_get_member:
  "k \<in> set (keys d) \<Longrightarrow> \<exists>v. dict_get d k = Inr v"
  by (cases "map_of d k") (auto simp: dict_get_def keys_def map_of_eq_None_iff)

lemma library_indicators_returns:
  "\<exists>r. library_indicators table fmt libs = Inr r"
proof (induction libs)
  case Nil
  show ?case by simp
next
  case (Cons lib libs)
  then obtain r where r: "library_indicators table fmt libs = Inr r" by blast
  show ?case
  proof (cases "lib \<in> set (keys table)")
    case True
    then obtain d where "dict_get table lib = Inr d" using dict_get_member by blast
    with True r show ?thesis by simp
  next
    case False
    with r show ?thesis by simp
  qed
qed

lemma detect_gpu_usage_returns: "\<exists>r. detect_gpu_usage script libs = Inr r"
proof -
  obtain r where "library_indicators GPU_LIBRARIES
      (\<lambda>lib d. ''Library: '' @ lib @ '' ('' @ d @ '')'') libs = Inr r"
    using library_indicators_returns by blast
  then show ?thesis by (simp add: detect_gpu_usage_def)
qed

lemma detect_memory_usage_returns: "\<exists>r. detect_memory_usage libs = Inr r"
  unfolding detect_memory_usage_def by (rule library_indicators_returns)

lemma analyze_blank:
  "strip script = [] \<Longrightarrow>
   analyze g script =
     Inr \<lparr>recommended_profile = ''small'', execution_mode = ''cpu'',
          detected_libraries = [], gpu_indicators = [], memory_indicators = [],
          compute_indicators = [], confidence = 1,
          reasoning = ''Empty or minimal script - using small profile''\<rparr>"
  by (simp add: analyze_def)

lemma analyze_nonblank:
  assumes "strip script \<noteq> []"
  shows "\<exists>gi mi p m c r.
           detect_gpu_usage script (detect_libraries script) = Inr gi \<and>
           detect_memory_usage (detect_libraries script) = Inr mi \<and>
           determine_profile (detect_libraries script) gi mi (detect_compute_patterns script)
             = (p, m, c, r) \<and>
           analyze g script =
             Inr \<lparr>recommended_profile = (if (m = ''gpu'' \<and> \<not> g) \<and> p = ''gpu'' then ''large'' else p),
                  execution_mode = (if m = ''gpu'' \<and> \<not> g then ''cpu'' else m),
                  detected_libraries = detect_libraries script,
                  gpu_indicators = gi, memory_indicators = mi,
                  compute_indicators = detect_compute_patterns script,
                  confidence = c,
                  reasoning = (if m = ''gpu'' \<and> \<not> g
                               then r @ '' (GPU not available, using CPU fallback)'' else r)\<rparr>"
proof -
  from assms have ne: "script \<noteq> []" by (auto simp: strip_def rstrip_def)
  obtain gi where gi: "detect_gpu_usage script (detect_libraries script) = Inr gi"
    using detect_gpu_usage_returns by blast
  obtain mi where mi: "detect_memory_usage (detect_libraries script) = Inr mi"
    using detect_memory_usage_returns by blast
  obtain p m c r where d:
    "determine_profile (detect_libraries script) gi mi (detect_compute_patterns script) = (p, m, c, r)"
    by (metis prod_cases4)
  show ?thesis
    using assms ne gi mi d by (simp add: analyze_def Let_def)
qed

lemma analyze_returns: "\<exists>a. analyze g script = Inr a"
proof (cases "strip script = []")
  case True
  then show ?thesis by (simp add: analyze_blank)
next
  case False
  from analyze_nonblank[OF False, of g] show ?thesis by blast
qed

text \<open>
  Claim C8. For every string input, \<open>analyze\<close> returns a ScriptAnalysis and raises nothing:
  the only lookups that could raise, \<open>GPU_LIBRARIES[lib]\<close> and
  \<open>MEMORY_INTENSIVE_LIBRARIES[lib]\<close>, are guarded by a membership test. The empty or
  whitespace-only script yields profile small, mode cpu and confidence 1.0.
\<close>

theorem analyze_never_raises:
  "(\<exists>a. analyze gpu_available script = Inr a) \<and>
   (strip script = [] \<longrightarrow>
      (\<exists>a. analyze gpu_available script = Inr a \<and> recommended_profile a = ''small'' \<and>
           ScriptAnalysis.execution_mode a = ''cpu'' \<and> confidence a = 1))"
proof (cases "strip script = []")
  case True
  then show ?thesis by (simp add: analyze_blank)
next
  case False
  from analyze_nonblank[OF False, of gpu_available] show ?thesis using False by blast
qed

theorem analyze_never_raises_witness:
  "strip [CHR '' '', CHR 0x0A, CHR 0x09] = [] \<and>
   (\<exists>a. analyze False [CHR '' '', CHR 0x0A, CHR 0x09] = Inr a \<and> recommended_profile a = ''small'' \<and>
        ScriptAnalysis.execution_mode a = ''cpu'' \<and> confidence a = 1)"
proof -
  have h: "strip [CHR '' '', CHR 0x0A, CHR 0x09] = []" by (simp add: strip_def rstrip_def isspace_def)
  with analyze_never_raises[of False "[CHR '' '', CHR 0x0A, CHR 0x09]"] show ?thesis by blast
qed


section \<open>Scores, decision table and confidence\<close>

lemma determine_profile_pick:
  "(fst (determine_profile libs gi mi ci), fst (snd (determine_profile libs gi mi ci))) =
     decision_table (gpu_score gi) (memory_score mi) (total_score gi mi ci)"
  by (simp add: determine_profile_def decision_table_def Let_def)

lemma scores_by_length:
  "gpu_score gi = 3 * length gi \<and> memory_score mi = 2 * length mi \<and>
   compute_score ci = 2 * length ci \<and>
   total_score gi mi ci = 3 * length gi + 2 * length mi + 2 * length ci"
  by (simp add: gpu_score_def memory_score_def compute_score_def total_score_def)

lemma confidence_bounds:
  "7 / 10 \<le> fst (snd (snd (determine_profile libs gi mi ci))) \<and>
   fst (snd (snd (determine_profile libs gi mi ci))) \<le> 9 / 10"
  by (simp add: determine_profile_def Let_def min_def)

lemma confidence_monotone_in_profile:
  assumes "fst (determine_profile l1 g1 m1 c1) = fst (determine_profile l2 g2 m2 c2)"
    and "gpu_score g1 \<le> gpu_score g2"
    and "total_score g1 m1 c1 \<le> total_score g2 m2 c2"
  shows "fst (snd (snd (determine_profile l1 g1 m1 c1)))
         \<le> fst (snd (snd (determine_profile l2 g2 m2 c2)))"
proof -
  have a: "(of_nat (gpu_score g1) :: rat) \<le> of_nat (gpu_score g2)" using assms(2) by simp
  have b: "(of_nat (total_score g1 m1 c1) :: rat) \<le> of_nat (total_score g2 m2 c2)"
    using assms(3) by simp
  have c: "total_score g2 m2 c2 \<ge> 4 \<Longrightarrow> (of_nat (total_score g2 m2 c2) :: rat) \<ge> 4"
    by (metis of_nat_le_iff of_nat_numeral)
  show ?thesis
    using assms(1) a b c
    by (auto simp: determine_profile_def Let_def min_def split: if_splits)
qed


text \<open>
  Claim C6. For every non-empty script the analyzer computes gpu_score as 3 times the
  number of GPU indicators, memory_score and compute_score as 2 times the number of
  memory and of compute indicators, total as their sum, and \<open>_determine_profile\<close> picks
  profile and mode by the ordered decision table (\<open>decision_table\<close> is the table in the
  words of the specification). The last two conjuncts say what \<open>analyze\<close> then returns:
  the pick, or large and cpu when the pick is gpu and no GPU is available.
\<close>

theorem analyzer_scores_and_decision_table:
  assumes "strip script \<noteq> []"
  shows "\<exists>a p m r.
     analyze g script = Inr a \<and>
     determine_profile (detected_libraries a) (gpu_indicators a) (memory_indicators a)
        (compute_indicators a) = (p, m, confidence a, r) \<and>
     gpu_score (gpu_indicators a) = 3 * length (gpu_indicators a) \<and>
     memory_score (memory_indicators a) = 2 * length (memory_indicators a) \<and>
     compute_score (compute_indicators a) = 2 * length (compute_indicators a) \<and>
     total_score (gpu_indicators a) (memory_indicators a) (compute_indicators a) =
        3 * length (gpu_indicators a) + 2 * length (memory_indicators a)
        + 2 * length (compute_indicators a) \<and>
     (p, m) = decision_table (gpu_score (gpu_indicators a)) (memory_score (memory_indicators a))
                (total_score (gpu_indicators a) (memory_indicators a) (compute_indicators a)) \<and>
     recommended_profile a = (if (m = ''gpu'' \<and> \<not> g) \<and> p = ''gpu'' then ''large'' else p) \<and>
     ScriptAnalysis.execution_mode a = (if m = ''gpu'' \<and> \<not> g then ''cpu'' else m)"
proof -
  from analyze_nonblank[OF assms, of g] obtain gi mi p m c r where
    d: "determine_profile (detect_libraries script) gi mi (detect_compute_patterns script) = (p, m, c, r)"
    and a: "analyze g script =
             Inr \<lparr>recommended_profile = (if (m = ''gpu'' \<and> \<not> g) \<and> p = ''gpu'' then ''large'' else p),
                  execution_mode = (if m = ''gpu'' \<and> \<not> g then ''cpu'' else m),
                  detected_libraries = detect_libraries script,
                  gpu_indicators = gi, memory_indicators = mi,
                  compute_indicators = detect_compute_patterns script,
                  confidence = c,
                  reasoning = (if m = ''gpu'' \<and> \<not> g
                               then r @ '' (GPU not available, using CPU fallback)'' else r)\<rparr>"
    by blast
  have pick: "(p, m) = decision_table (gpu_score gi) (memory_score mi)
                 (total_score gi mi (detect_compute_patterns script))"
    using determine_profile_pick[of "detect_libraries script" gi mi "detect_compute_patterns script"] d
    by simp
  show ?thesis
    using a d pick scores_by_length[of gi mi "detect_compute_patterns script"]
    by (intro exI[of _ "\<lparr>recommended_profile = (if (m = ''gpu'' \<and> \<not> g) \<and> p = ''gpu'' then ''large'' else p),
                  execution_mode = (if m = ''gpu'' \<and> \<not> g then ''cpu'' else m),
                  detected_libraries = detect_libraries script,
                  gpu_indicators = gi, memory_indicators = mi,
                  compute_indicators = detect_compute_patterns script,
                  confidence = c,
                  reasoning = (if m = ''gpu'' \<and> \<not> g
                               then r @ '' (GPU not available, using CPU fallback)'' else r)\<rparr>"]
             exI[of _ p] exI[of _ m] exI[of _ r]) simp
qed

lemma strip_import_torch: "strip ''import torch'' \<noteq> []"
  by (simp add: strip_def rstrip_def isspace_def)

theorem analyzer_scores_and_decision_table_witness:
  "strip ''import torch'' \<noteq> [] \<and>
   (\<exists>a. analyze True ''import torch'' = Inr a \<and>
        gpu_score (gpu_indicators a) = 3 * length (gpu_indicators a) \<and>
        (recommended_profile a, ScriptAnalysis.execution_mode a) =
           decision_table (gpu_score (gpu_indicators a)) (memory_score (memory_indicators a))
             (total_score (gpu_indicators a) (memory_indicators a) (compute_indicators a)))"
proof -
  from analyzer_scores_and_decision_table[OF strip_import_torch, of True]
  show ?thesis using strip_import_torch by auto
qed


lemma analyze_nonblank_pick:
  assumes "strip script \<noteq> []" and "analyze g script = Inr a"
  shows "picked_profile a =
           fst (determine_profile (detected_libraries a) (gpu_indicators a)
                  (memory_indicators a) (compute_indicators a)) \<and>
         confidence a =
           fst (snd (snd (determine_profile (detected_libraries a) (gpu_indicators a)
                  (memory_indicators a) (compute_indicators a))))"
proof -
  from analyze_nonblank[OF assms(1), of g] obtain gi mi p m c r where
    d: "determine_profile (detect_libraries script) gi mi (detect_compute_patterns script) = (p, m, c, r)"
    and a: "analyze g script =
             Inr \<lparr>recommended_profile = (if (m = ''gpu'' \<and> \<not> g) \<and> p = ''gpu'' then ''large'' else p),
                  execution_mode = (if m = ''gpu'' \<and> \<not> g then ''cpu'' else m),
                  detected_libraries = detect_libraries script,
                  gpu_indicators = gi, memory_indicators = mi,
                  compute_indicators = detect_compute_patterns script,
                  confidence = c,
                  reasoning = (if m = ''gpu'' \<and> \<not> g
                               then r @ '' (GPU not available, using CPU fallback)'' else r)\<rparr>"
    by blast
  from a assms(2) have f: "detected_libraries a = detect_libraries script"
    "gpu_indicators a = gi" "memory_indicators a = mi"
    "compute_indicators a = detect_compute_patterns script" "confidence a = c"
    by auto
  have pk: "(fst (determine_profile (detect_libraries script) gi mi (detect_compute_patterns script)),
             fst (snd (determine_profile (detect_libraries script) gi mi
                         (detect_compute_patterns script)))) =
            decision_table (gpu_score gi) (memory_score mi)
              (total_score gi mi (detect_compute_patterns script))"
    by (rule determine_profile_pick)
  have "fst (decision_table (gpu_score gi) (memory_score mi)
               (total_score gi mi (detect_compute_patterns script)))
        = fst (determine_profile (detect_libraries script) gi mi (detect_compute_patterns script))"
    using arg_cong[OF pk, of fst] by simp
  then have "picked_profile a = fst (determine_profile (detect_libraries script) gi mi
                                   (detect_compute_patterns script))"
    by (simp add: picked_profile_def analysis_score_def f)
  with d f show ?thesis by simp
qed

text \<open>
  Claim C7, as stated, fails: the empty script gets confidence 1.0, above 0.9; the
  confidence falls from 0.8 at total score 0 to 0.7 at total score 2; and with no GPU
  available two scripts that both get the profile large have confidence 0.85 at total
  score 8 and 0.8 at total score 11.
\<close>

theorem confidence_counterexample:
  "map_sum id analysis_summary (analyze False []) = Inr (''small'', 0, 1) \<and>
   map_sum id analysis_summary (analyze False ''print(1)'') = Inr (''small'', 0, 8 / 10) \<and>
   map_sum id analysis_summary (analyze False ''import cv2'') = Inr (''medium'', 2, 7 / 10) \<and>
   map_sum id analysis_summary (analyze False four_imports) = Inr (''large'', 8, 17 / 20) \<and>
   map_sum id analysis_summary (analyze False four_imports_jax) = Inr (''large'', 11, 8 / 10)"
  by code_simp

text \<open>
  Claim C7, amended. \<open>analyze\<close> returns confidence 1.0 for an empty or whitespace-only
  script and a confidence between 0.7 and 0.9 for every other script. The confidence is
  not monotonic in the score. Between two analyses of scripts that are not blank whose
  scores select the same row of the decision table (\<open>picked_profile\<close>, the profile before
  a pick of gpu is returned as large for want of a GPU), the confidence does not decrease
  when neither the gpu score nor the total score decreases.
\<close>

theorem confidence_bounded_and_monotone_within_row:
  "(\<exists>a. analyze g script = Inr a \<and>
        (if strip script = [] then confidence a = 1
         else 7 / 10 \<le> confidence a \<and> confidence a \<le> 9 / 10)) \<and>
   (strip s1 \<noteq> [] \<longrightarrow> strip s2 \<noteq> [] \<longrightarrow>
    analyze g1 s1 = Inr a1 \<longrightarrow> analyze g2 s2 = Inr a2 \<longrightarrow>
    picked_profile a1 = picked_profile a2 \<longrightarrow>
    gpu_score (gpu_indicators a1) \<le> gpu_score (gpu_indicators a2) \<longrightarrow>
    analysis_score a1 \<le> analysis_score a2 \<longrightarrow>
      confidence a1 \<le> confidence a2)"
proof (intro conjI impI)
  show "\<exists>a. analyze g script = Inr a \<and>
        (if strip script = [] then confidence a = 1
         else 7 / 10 \<le> confidence a \<and> confidence a \<le> 9 / 10)"
  proof (cases "strip script = []")
    case True
    then show ?thesis by (simp add: analyze_blank)
  next
    case False
    obtain a where a: "analyze g script = Inr a" using analyze_returns by blast
    from analyze_nonblank_pick[OF False a]
      confidence_bounds[of "detected_libraries a" "gpu_indicators a" "memory_indicators a"
        "compute_indicators a"]
    have "7 / 10 \<le> confidence a \<and> confidence a \<le> 9 / 10" by simp
    with a False show ?thesis by auto
  qed
next
  assume n1: "strip s1 \<noteq> []" and n2: "strip s2 \<noteq> []"
    and a1: "analyze g1 s1 = Inr a1" and a2: "analyze g2 s2 = Inr a2"
    and p: "picked_profile a1 = picked_profile a2"
    and gs: "gpu_score (gpu_indicators a1) \<le> gpu_score (gpu_indicators a2)"
    and ts: "analysis_score a1 \<le> analysis_score a2"
  note k1 = analyze_nonblank_pick[OF n1 a1]
  note k2 = analyze_nonblank_pick[OF n2 a2]
  have "fst (snd (snd (determine_profile (detected_libraries a1) (gpu_indicators a1)
                  (memory_indicators a1) (compute_indicators a1))))
        \<le> fst (snd (snd (determine_profile (detected_libraries a2) (gpu_indicators a2)
                  (memory_indicators a2) (compute_indicators a2))))"
  proof (rule confidence_monotone_in_profile)
    show "fst (determine_profile (detected_libraries a1) (gpu_indicators a1)
                  (memory_indicators a1) (compute_indicators a1))
        = fst (determine_profile (detected_libraries a2) (gpu_indicators a2)
                  (memory_indicators a2) (compute_indicators a2))"
      using k1 k2 p by simp
    show "gpu_score (gpu_indicators a1) \<le> gpu_score (gpu_indicators a2)" by (rule gs)
    show "total_score (gpu_indicators a1) (memory_indicators a1) (compute_indicators a1)
          \<le> total_score (gpu_indicators a2) (memory_indicators a2) (compute_indicators a2)"
      using ts by (simp add: analysis_score_def)
  qed
  with k1 k2 show "confidence a1 \<le> confidence a2" by simp
qed

lemma two_imports_row:
  "map_sum id analysis_row (analyze False two_imports) = Inr (''medium'', 0, 4)"
  by code_simp

lemma three_imports_row:
  "map_sum id analysis_row (analyze False three_imports) = Inr (''medium'', 0, 6)"
  by code_simp

lemma imports_nonblank: "strip two_imports \<noteq> [] \<and> strip three_imports \<noteq> []"
  by code_simp

theorem confidence_bounded_and_monotone_within_row_witness:
  "strip two_imports \<noteq> [] \<and> strip three_imports \<noteq> [] \<and>
   (\<exists>a1 a2. analyze False two_imports = Inr a1 \<and> analyze False three_imports = Inr a2 \<and>
      picked_profile a1 = picked_profile a2 \<and>
      gpu_score (gpu_indicators a1) \<le> gpu_score (gpu_indicators a2) \<and>
      analysis_score a1 \<le> analysis_score a2 \<and>
      confidence a1 \<le> confidence a2 \<and>
      7 / 10 \<le> confidence a1 \<and> confidence a1 \<le> 9 / 10)"
proof -
  obtain a1 where a1: "analyze False two_imports = Inr a1" using analyze_returns by blast
  obtain a2 where a2: "analyze False three_imports = Inr a2" using analyze_returns by blast
  from two_imports_row a1 have r1: "picked_profile a1 = ''medium''"
    "gpu_score (gpu_indicators a1) = 0" "analysis_score a1 = 4"
    by (simp_all add: analysis_row_def)
  from three_imports_row a2 have r2: "picked_profile a2 = ''medium''"
    "gpu_score (gpu_indicators a2) = 0" "analysis_score a2 = 6"
    by (simp_all add: analysis_row_def)
  from confidence_bounded_and_monotone_within_row[of False two_imports two_imports
         three_imports False a1 False a2]
  have "confidence a1 \<le> confidence a2 \<and> 7 / 10 \<le> confidence a1 \<and> confidence a1 \<le> 9 / 10"
    using imports_nonblank a1 a2 r1 r2 by simp
  with imports_nonblank a1 a2 r1 r2 show ?thesis by auto
qed

section \<open>Terminal states and cancellation\<close>

lemma finished_iff_not_cancellable: "is_finished job \<longleftrightarrow> \<not> is_cancellable job"
  by (cases "status job") (simp_all add: is_finished_def is_cancellable_def)

text \<open>
  Claim C1, as stated, fails: a cancel request on a job that finished with success
  changes its status to cancelled and rewrites \<open>finished_at\<close> and the duration.
\<close>

theorem cancel_finished_job_counterexample:
  "status example_finished_job = SUCCESS \<and>
   finished_at example_finished_job = Some 20 \<and>
   duration_seconds example_finished_job = Some 10 \<and>
   cancel_job (Some example_finished_job) 1 False 50 False CRemoved =
     Inr (example_finished_job\<lparr>status := CANCELLED, finished_at := Some 50,
                               duration_seconds := Some 40\<rparr>, CRemoved)"
  by (simp add: example_finished_job_def example_job_def cancel_job_def executor_cancel_job_def)

text \<open>
  Claim C1, amended. The terminal statuses are success, failed, cancelled and timeout.
  A cancel request of the owner or of an admin through the job route on a job in a
  terminal state is not a no-op: it sets the status to cancelled, \<open>finished_at\<close> to the
  time of the request, and the duration to the time since \<open>started_at\<close> when that is set;
  the job is again in a terminal state. The admin route rejects a job in a terminal state
  with error 400 and changes nothing.
\<close>

theorem cancel_rewrites_finished_job:
  assumes "is_finished job" and "user_id job = uid \<or> is_admin"
  shows "cancel_job (Some job) uid is_admin now tracked c =
           Inr (job\<lparr>status := CANCELLED, finished_at := Some now,
                    duration_seconds :=
                      (case started_at job of Some s \<Rightarrow> Some (now - s)
                       | None \<Rightarrow> duration_seconds job)\<rparr>,
                fst (executor_cancel_job tracked c)) \<and>
         is_finished (job\<lparr>status := CANCELLED, finished_at := Some now,
                    duration_seconds :=
                      (case started_at job of Some s \<Rightarrow> Some (now - s)
                       | None \<Rightarrow> duration_seconds job)\<rparr>) \<and>
         cancel_job_admin (Some job) admin_email now tracked c = Inl (HTTPException 400)"
proof -
  from assms(1) have "\<not> is_cancellable job" by (simp add: finished_iff_not_cancellable)
  then show ?thesis
    using assms(2) by (auto simp: cancel_job_def cancel_job_admin_def is_finished_def)
qed

theorem cancel_rewrites_finished_job_witness:
  "is_finished example_finished_job \<and> (user_id example_finished_job = 1 \<or> False) \<and>
   cancel_job (Some example_finished_job) 1 False 50 False CRemoved =
     Inr (example_finished_job\<lparr>status := CANCELLED, finished_at := Some 50,
                               duration_seconds := Some 40\<rparr>, CRemoved) \<and>
   cancel_job_admin (Some example_finished_job) ''admin@ensam.ma'' 50 False CRemoved
     = Inl (HTTPException 400)"
proof -
  have h1: "is_finished example_finished_job"
    by (simp add: is_finished_def example_finished_job_def)
  have h2: "user_id example_finished_job = 1 \<or> False"
    by (simp add: example_finished_job_def example_job_def)
  from cancel_rewrites_finished_job[OF h1 h2, of 50 False CRemoved "''admin@ensam.ma''"]
  show ?thesis using h1 h2
    by (simp add: example_finished_job_def example_job_def executor_cancel_job_def)
qed

text \<open>
  The final status follows the first of cancelled, timeout and exit code that holds, so a
  wait that saw the cancellation of its own task ends in cancelled whatever else it saw.
  The cancel route does not cancel that task: it removes the container and writes
  cancelled itself.
\<close>

lemma executor_cancel_job_removes: "fst (executor_cancel_job tracked c) = CRemoved"
  by (cases c) (simp_all add: executor_cancel_job_def)

lemma process_result_cancelled_first:
  "cancelled result \<Longrightarrow> status (process_result L g now t result job) = CANCELLED"
  by (simp add: process_result_def Let_def)

lemma process_result_status:
  "status (process_result L g now t result job) =
     (if cancelled result then CANCELLED
      else if wait_result.timeout result then TIMEOUT
      else if wait_result.exit_code result = 0 then SUCCESS else FAILED)"
  by (simp add: process_result_def Let_def)

lemma cancel_then_poll_failed:
  "map_option status (cancel_then_poll L g final_logs p t1 t2 job c) = Some FAILED"
  by (simp add: cancel_then_poll_def cancel_job_def executor_cancel_job_removes supervise_def
        execution_failed_def split: sum.splits)

text \<open>
  Claim C2: a cancel request that arrives while a job runs leaves the job cancelled, never
  success or failed. The code does not do that. The route writes cancelled and removes
  the container; in its next round the supervisor finds the container gone, its
  \<open>reload\<close> raises, and the handler of \<open>execute_job\<close> writes failed over the row.
\<close>

theorem cancel_running_job_ends_failed:
  "status (start_running 100 example_job) = RUNNING \<and>
   map_sum id (status \<circ> fst)
     (cancel_job (Some (start_running 100 example_job)) 1 False 105 True CRunning) = Inr CANCELLED \<and>
   map_sum id snd
     (cancel_job (Some (start_running 100 example_job)) 1 False 105 True CRunning) = Inr CRemoved \<and>
   docker_reload CRemoved = ReloadFails \<and>
   map_option status
     (cancel_then_poll example_lib False ''done'' example_poll 105 106
        (start_running 100 example_job) CRunning) = Some FAILED"
  by (simp add: start_running_def example_job_def cancel_job_def executor_cancel_job_def
        cancel_then_poll_def supervise_def execution_failed_def split: sum.splits)


section \<open>Profile and mode of a submitted job\<close>

text \<open>
  Claim C3, as stated, fails for the execution mode: \<open>submit_job\<close> never reads the mode of
  the request. A request for mode cpu with profile gpu is stored with mode gpu, and a
  request for mode gpu with profile small, on a script with no GPU indicator, is stored
  with mode cpu.
\<close>

theorem submit_job_mode_counterexample:
  "mode_value (JobSubmitRequest.execution_mode
      (example_request\<lparr>JobSubmitRequest.execution_mode := CPU,
                        JobSubmitRequest.resource_profile := GPU_PROFILE\<rparr>)) = ''cpu'' \<and>
   map_sum id Job.execution_mode
     (submit_job example_lib True True 1 7
        (example_request\<lparr>JobSubmitRequest.execution_mode := CPU,
                          JobSubmitRequest.resource_profile := GPU_PROFILE\<rparr>)) = Inr ''gpu'' \<and>
   mode_value (JobSubmitRequest.execution_mode
      (example_request\<lparr>JobSubmitRequest.execution_mode := GPU,
                        JobSubmitRequest.resource_profile := SMALL\<rparr>)) = ''gpu'' \<and>
   map_sum id Job.execution_mode
     (submit_job example_lib True True 1 7
        (example_request\<lparr>JobSubmitRequest.execution_mode := GPU,
                          JobSubmitRequest.resource_profile := SMALL\<rparr>)) = Inr ''cpu''"
  by code_simp

text \<open>
  Claim C3, amended. The profile of the job is the profile of the request when that is
  not auto, and the analyzer's recommended profile when it is auto. The mode of the job
  is the analyzer's recommended mode whatever mode the request names, except that a
  requested profile gpu forces mode gpu.
\<close>

theorem submit_job_profile_and_mode:
  assumes "submit_job L is_available gpu_available uid jid request = Inr job"
  shows "\<exists>analysis.
     analyze_script (code request) (if is_available then gpu_available else False) = Inr analysis \<and>
     Job.resource_profile job =
       (if JobSubmitRequest.resource_profile request = AUTO_PROFILE
        then recommended_profile analysis
        else profile_value (JobSubmitRequest.resource_profile request)) \<and>
     Job.execution_mode job =
       (if JobSubmitRequest.resource_profile request = GPU_PROFILE then ''gpu''
        else ScriptAnalysis.execution_mode analysis)"
proof -
  obtain analysis where a:
    "analyze_script (code request) (if is_available then gpu_available else False) = Inr analysis"
    using analyze_returns by (auto simp: analyze_script_def)
  show ?thesis
    using assms a
    by (cases "JobSubmitRequest.resource_profile request")
       (auto simp: submit_job_def Let_def split: sum.splits if_splits)
qed


lemma submit_job_returns:
  assumes "custom_config request = None"
  shows "\<exists>job. submit_job L is_available gpu_available uid jid request = Inr job"
proof -
  obtain analysis where
    "analyze_script (code request) (if is_available then gpu_available else False) = Inr analysis"
    using analyze_returns by (auto simp: analyze_script_def)
  with assms show ?thesis
    by (simp add: submit_job_def Let_def split: prod.splits)
qed

theorem submit_job_profile_and_mode_witness:
  "\<exists>job analysis.
     submit_job example_lib True True 1 7
       (example_request\<lparr>JobSubmitRequest.execution_mode := GPU,
                         JobSubmitRequest.resource_profile := LARGE\<rparr>) = Inr job \<and>
     analyze_script ''print(1)'' True = Inr analysis \<and>
     Job.resource_profile job = ''large'' \<and>
     Job.execution_mode job = ScriptAnalysis.execution_mode analysis"
proof -
  obtain job where j:
    "submit_job example_lib True True 1 7
       (example_request\<lparr>JobSubmitRequest.execution_mode := GPU,
                         JobSubmitRequest.resource_profile := LARGE\<rparr>) = Inr job"
    using submit_job_returns[of "example_request\<lparr>JobSubmitRequest.execution_mode := GPU,
                         JobSubmitRequest.resource_profile := LARGE\<rparr>" example_lib True True 1 7]
    by (auto simp: example_request_def)
  from submit_job_profile_and_mode[OF j] show ?thesis
    using j by (auto simp: example_request_def)
qed


section \<open>Resource limits and the effective timeout\<close>

lemma clamp_in_range:
  assumes "clamp lo hi v = Inr n" and "lo \<le> hi"
  shows "in_range lo hi n"
proof -
  from assms(1) obtain x where x: "as_num v = Inr x" and n: "n = py_max (PInt lo) (py_min x (PInt hi))"
    by (auto simp: clamp_def split: sum.splits)
  show ?thesis using assms(2) unfolding n
    by (cases x) (auto simp: in_range_def py_min_def py_max_def)
qed

lemma clamp_int: "clamp lo hi (JNum (PInt i)) = Inr (PInt (max lo (min i hi)))"
  by (auto simp: clamp_def py_min_def py_max_def)

lemma clamp_error: "clamp lo hi v = Inl e \<Longrightarrow> e = TypeError"
  by (cases v) (auto simp: clamp_def)

lemma profile_defaults_in_range:
  "\<exists>d. profile_defaults profile = Inr d \<and>
       in_range 256 8192 (memory_mb d) \<and> in_range 256 4096 (cpu_shares d) \<and>
       in_range 10 3600 (limits.timeout d)"
  by (simp add: profile_defaults_def resolve_profile_def RESOURCE_PROFILES_def keys_def
        dict_get_def in_range_def)


lemma override_cases:
  "override key lo hi set_field cfg l =
     (if key \<in> set (keys cfg) then
        (case override_value cfg key lo hi of
           Some n \<Rightarrow> Inr (set_field n l) | None \<Rightarrow> Inl (TypeError, l))
      else Inr l)"
proof (cases "key \<in> set (keys cfg)")
  case False
  then show ?thesis by (simp add: override_def)
next
  case True
  then obtain v where v: "dict_get cfg key = Inr v" using dict_get_member by blast
  show ?thesis
  proof (cases "clamp lo hi v")
    case (Inl e)
    then have "e = TypeError" by (rule clamp_error)
    with Inl True v show ?thesis by (simp add: override_def override_value_def)
  next
    case (Inr n)
    with True v show ?thesis by (simp add: override_def override_value_def)
  qed
qed

lemma override_value_in_range:
  "override_value cfg key lo hi = Some n \<Longrightarrow> lo \<le> hi \<Longrightarrow> in_range lo hi n"
  by (auto simp: override_value_def split: if_splits sum.splits intro: clamp_in_range)

lemma override_Inr:
  assumes "override key lo hi set_field cfg l = Inr l'"
  shows "l' = (case override_value cfg key lo hi of Some n \<Rightarrow> set_field n l | None \<Rightarrow> l)"
proof (cases "key \<in> set (keys cfg)")
  case False
  with assms show ?thesis by (simp add: override_def override_value_def)
next
  case True
  with assms show ?thesis by (simp add: override_cases split: option.splits)
qed

lemma override_Inl:
  assumes "override key lo hi set_field cfg l = Inl (e, l')"
  shows "e = TypeError"
  using assms by (simp add: override_cases split: if_splits option.splits)

lemma apply_custom_config_steps:
  assumes "apply_custom_config cfg l0 = Inr l"
  shows "\<exists>l1 l2.
           override ''memory_mb'' 256 8192 (\<lambda>n l. l\<lparr>memory_mb := n\<rparr>) cfg l0 = Inr l1 \<and>
           override ''cpu_shares'' 256 4096 (\<lambda>n l. l\<lparr>cpu_shares := n\<rparr>) cfg l1 = Inr l2 \<and>
           override ''timeout'' 10 3600 (\<lambda>n l. l\<lparr>limits.timeout := n\<rparr>) cfg l2 = Inr l"
  using assms unfolding apply_custom_config_def by (simp split: sum.splits)

lemma apply_custom_config_Inr:
  assumes "apply_custom_config cfg l0 = Inr l"
  shows "memory_mb l = (case override_value cfg ''memory_mb'' 256 8192 of
                          Some n \<Rightarrow> n | None \<Rightarrow> memory_mb l0) \<and>
         cpu_shares l = (case override_value cfg ''cpu_shares'' 256 4096 of
                          Some n \<Rightarrow> n | None \<Rightarrow> cpu_shares l0) \<and>
         limits.timeout l = (case override_value cfg ''timeout'' 10 3600 of
                          Some n \<Rightarrow> n | None \<Rightarrow> limits.timeout l0) \<and>
         gpu l = gpu l0"
proof -
  from apply_custom_config_steps[OF assms] obtain l1 l2 where
    s1: "override ''memory_mb'' 256 8192 (\<lambda>n l. l\<lparr>memory_mb := n\<rparr>) cfg l0 = Inr l1" and
    s2: "override ''cpu_shares'' 256 4096 (\<lambda>n l. l\<lparr>cpu_shares := n\<rparr>) cfg l1 = Inr l2" and
    s3: "override ''timeout'' 10 3600 (\<lambda>n l. l\<lparr>limits.timeout := n\<rparr>) cfg l2 = Inr l"
    by blast
  have e1: "l1 = (case override_value cfg ''memory_mb'' 256 8192 of
                    Some n \<Rightarrow> l0\<lparr>memory_mb := n\<rparr> | None \<Rightarrow> l0)"
    using override_Inr[OF s1] .
  have e2: "l2 = (case override_value cfg ''cpu_shares'' 256 4096 of
                    Some n \<Rightarrow> l1\<lparr>cpu_shares := n\<rparr> | None \<Rightarrow> l1)"
    using override_Inr[OF s2] .
  have e3: "l = (case override_value cfg ''timeout'' 10 3600 of
                    Some n \<Rightarrow> l2\<lparr>limits.timeout := n\<rparr> | None \<Rightarrow> l2)"
    using override_Inr[OF s3] .
  have m3: "memory_mb l = memory_mb l2" "cpu_shares l = cpu_shares l2" "gpu l = gpu l2"
    "limits.timeout l = (case override_value cfg ''timeout'' 10 3600 of
                          Some n \<Rightarrow> n | None \<Rightarrow> limits.timeout l2)"
    unfolding e3 by (simp_all split: option.splits)
  have m2: "memory_mb l2 = memory_mb l1" "limits.timeout l2 = limits.timeout l1" "gpu l2 = gpu l1"
    "cpu_shares l2 = (case override_value cfg ''cpu_shares'' 256 4096 of
                          Some n \<Rightarrow> n | None \<Rightarrow> cpu_shares l1)"
    unfolding e2 by (simp_all split: option.splits)
  have m1: "cpu_shares l1 = cpu_shares l0" "limits.timeout l1 = limits.timeout l0" "gpu l1 = gpu l0"
    "memory_mb l1 = (case override_value cfg ''memory_mb'' 256 8192 of
                          Some n \<Rightarrow> n | None \<Rightarrow> memory_mb l0)"
    unfolding e1 by (simp_all split: option.splits)
  show ?thesis unfolding m3 m2 m1 by simp
qed

lemma apply_custom_config_Inl:
  assumes "apply_custom_config cfg l0 = Inl (e, l)"
  shows "e = TypeError"
proof (cases "override ''memory_mb'' 256 8192 (\<lambda>n l. l\<lparr>memory_mb := n\<rparr>) cfg l0")
  case (Inl el)
  with assms have "override ''memory_mb'' 256 8192 (\<lambda>n l. l\<lparr>memory_mb := n\<rparr>) cfg l0 = Inl (e, l)"
    by (simp add: apply_custom_config_def)
  then show ?thesis by (rule override_Inl)
next
  case (Inr l1)
  note one = Inr
  show ?thesis
  proof (cases "override ''cpu_shares'' 256 4096 (\<lambda>n l. l\<lparr>cpu_shares := n\<rparr>) cfg l1")
    case (Inl el)
    with assms one have "override ''cpu_shares'' 256 4096 (\<lambda>n l. l\<lparr>cpu_shares := n\<rparr>) cfg l1 = Inl (e, l)"
      by (simp add: apply_custom_config_def)
    then show ?thesis by (rule override_Inl)
  next
    case (Inr l2)
    with assms one have "override ''timeout'' 10 3600 (\<lambda>n l. l\<lparr>limits.timeout := n\<rparr>) cfg l2 = Inl (e, l)"
      by (simp add: apply_custom_config_def)
    then show ?thesis by (rule override_Inl)
  qed
qed

lemma decoded_config_empty_text:
  "analysis_reasoning job = Some [] \<Longrightarrow> decoded_config L job = None"
  by (simp add: decoded_config_def)

lemma get_resource_limits_cases:
  assumes "profile_defaults profile = Inr d"
  shows "get_resource_limits L profile (Some job) =
           (case decoded_config L job of
              None \<Rightarrow> Inr d
            | Some cfg \<Rightarrow>
                (case apply_custom_config cfg d of
                   Inl (e, l) \<Rightarrow> Inl TypeError
                 | Inr l \<Rightarrow> Inr l))"
proof (cases "decoded_config L job")
  case None
  with assms show ?thesis
    by (auto simp: get_resource_limits_def profile_defaults_def decoded_config_def
             split: option.splits)
next
  case (Some cfg)
  show ?thesis
  proof (cases "apply_custom_config cfg d")
    case (Inl el)
    obtain e l where el: "el = (e, l)" by (cases el)
    with Inl have "e = TypeError" using apply_custom_config_Inl by blast
    with Inl el Some assms show ?thesis
      by (auto simp: get_resource_limits_def profile_defaults_def decoded_config_def
               split: option.splits)
  next
    case (Inr l)
    with Some assms show ?thesis
      by (auto simp: get_resource_limits_def profile_defaults_def decoded_config_def
               split: option.splits)
  qed
qed

lemma get_resource_limits_no_job:
  "profile_defaults profile = Inr d \<Longrightarrow> get_resource_limits L profile None = Inr d"
  by (simp add: get_resource_limits_def profile_defaults_def)

lemma get_resource_limits_error:
  assumes "get_resource_limits L profile job = Inl e"
  shows "e = TypeError"
proof -
  obtain d where d: "profile_defaults profile = Inr d" using profile_defaults_in_range by blast
  show ?thesis
  proof (cases job)
    case None
    with assms d show ?thesis by (simp add: get_resource_limits_no_job)
  next
    case (Some j)
    with assms d show ?thesis
      by (auto simp: get_resource_limits_cases split: option.splits sum.splits)
  qed
qed

lemma limits_in_range:
  assumes "get_resource_limits L profile job = Inr l"
  shows "in_range 256 8192 (memory_mb l) \<and> in_range 256 4096 (cpu_shares l) \<and>
         in_range 10 3600 (limits.timeout l)"
proof -
  obtain d where d: "profile_defaults profile = Inr d"
    and r: "in_range 256 8192 (memory_mb d)" "in_range 256 4096 (cpu_shares d)"
           "in_range 10 3600 (limits.timeout d)"
    using profile_defaults_in_range by blast
  show ?thesis
  proof (cases job)
    case None
    with assms d r show ?thesis by (simp add: get_resource_limits_no_job)
  next
    case (Some j)
    show ?thesis
    proof (cases "decoded_config L j")
      case None
      with assms d r Some show ?thesis by (simp add: get_resource_limits_cases)
    next
      case (Some cfg)
      with assms d \<open>job = Some j\<close> have a: "apply_custom_config cfg d = Inr l"
        by (auto simp: get_resource_limits_cases split: sum.splits)
      from apply_custom_config_Inr[OF a] r show ?thesis
        by (auto split: option.splits dest: override_value_in_range)
    qed
  qed
qed


lemma submit_job_timeout_result:
  assumes "submit_job L is_available gpu_available uid jid request = Inr job"
  shows "(if request_config request \<noteq> [] \<and> ''timeout'' \<in> set (keys (request_config request))
          then (case dict_get (request_config request) ''timeout'' of
                  Inl e \<Rightarrow> Inl e | Inr v \<Rightarrow> clamp 10 3600 v)
          else Inr (PInt (JobSubmitRequest.timeout request))) = Inr (timeout_seconds job)"
proof -
  obtain analysis where a:
    "analyze_script (code request) (if is_available then gpu_available else False) = Inr analysis"
    using analyze_returns by (auto simp: analyze_script_def)
  show ?thesis
    using assms unfolding submit_job_def a request_config_def[symmetric]
    by (auto simp: Let_def case_prod_beta split: sum.splits)
qed

lemma submit_job_timeout:
  assumes "submit_job L is_available gpu_available uid jid request = Inr job"
  shows "timeout_seconds job =
           (case override_value (request_config request) ''timeout'' 10 3600 of
              Some n \<Rightarrow> n | None \<Rightarrow> PInt (JobSubmitRequest.timeout request))"
proof (cases "''timeout'' \<in> set (keys (request_config request))")
  case False
  with submit_job_timeout_result[OF assms] show ?thesis
    by (simp add: override_value_def)
next
  case True
  then have ne: "request_config request \<noteq> []" by (auto simp: keys_def)
  from True obtain v where v: "dict_get (request_config request) ''timeout'' = Inr v"
    using dict_get_member by blast
  with submit_job_timeout_result[OF assms] True ne
  have "clamp 10 3600 v = Inr (timeout_seconds job)" by simp
  with True v show ?thesis by (simp add: override_value_def)
qed

lemma submit_job_timeout_in_range:
  assumes "valid_request request"
    and "submit_job L is_available gpu_available uid jid request = Inr job"
  shows "in_range 10 3600 (timeout_seconds job)"
proof (cases "override_value (request_config request) ''timeout'' 10 3600")
  case None
  with submit_job_timeout[OF assms(2)] assms(1) show ?thesis
    by (simp add: valid_request_def in_range_def)
next
  case (Some n)
  with submit_job_timeout[OF assms(2)] override_value_in_range[OF Some] show ?thesis by simp
qed

lemma submit_job_returns_without_timeout:
  assumes "''timeout'' \<notin> set (keys (request_config request))"
  shows "\<exists>job. submit_job L is_available gpu_available uid jid request = Inr job"
proof -
  obtain analysis where a:
    "analyze_script (code request) (if is_available then gpu_available else False) = Inr analysis"
    using analyze_returns by (auto simp: analyze_script_def)
  show ?thesis
    using assms unfolding submit_job_def a request_config_def[symmetric]
    by (simp add: Let_def case_prod_beta)
qed

lemma py_min_in_range:
  "in_range lo hi a \<Longrightarrow> in_range lo hi b \<Longrightarrow> in_range lo hi (py_min a b)"
  by (simp add: py_min_def)

lemma dict_get_Inr_key:
  assumes "dict_get cfg k = Inr v"
  shows "k \<in> set (keys cfg)"
proof -
  from assms have "map_of cfg k = Some v"
    by (simp add: dict_get_def split: option.splits)
  then have "(k, v) \<in> set cfg" by (rule map_of_SomeD)
  then have "fst (k, v) \<in> fst ` set cfg" by (rule imageI)
  then show ?thesis by (simp add: keys_def)
qed

lemma get_resource_limits_decoded:
  assumes "get_resource_limits L profile (Some job) = Inr l"
    and "decoded_config L job = Some cfg"
    and "profile_defaults profile = Inr d"
  shows "apply_custom_config cfg d = Inr l"
proof -
  have "get_resource_limits L profile (Some job) =
          (case apply_custom_config cfg d of Inl (e, l) \<Rightarrow> Inl TypeError | Inr l \<Rightarrow> Inr l)"
    using get_resource_limits_cases[OF assms(3), of L job] assms(2) by simp
  with assms(1) show ?thesis
    by (cases "apply_custom_config cfg d") (simp_all split: prod.splits)
qed

lemma memory_override_100000:
  assumes "get_resource_limits L profile (Some job) = Inr l"
    and "decoded_config L job = Some cfg"
    and "dict_get cfg ''memory_mb'' = Inr (JNum (PInt 100000))"
  shows "memory_mb l = PInt 8192"
proof -
  obtain d where d: "profile_defaults profile = Inr d" using profile_defaults_in_range by blast
  have a: "apply_custom_config cfg d = Inr l"
    using get_resource_limits_decoded[OF assms(1,2) d] .
  have k: "''memory_mb'' \<in> set (keys cfg)" using dict_get_Inr_key[OF assms(3)] .
  have c: "clamp 256 8192 (JNum (PInt 100000)) = Inr (PInt 8192)"
    by (simp add: clamp_def py_min_def py_max_def)
  have "override_value cfg ''memory_mb'' 256 8192 = Some (PInt 8192)"
    unfolding override_value_def using k assms(3) c by simp
  with apply_custom_config_Inr[OF a] show ?thesis by simp
qed

lemma submitted_limits_in_range:
  assumes "valid_request request"
    and "submit_job L is_available gpu_available uid jid request = Inr job"
    and "get_resource_limits L (Job.resource_profile job) (Some job) = Inr l"
  shows "in_range 256 8192 (memory_mb l) \<and>
         in_range 256 4096 (cpu_shares l) \<and>
         in_range 10 3600 (limits.timeout l) \<and>
         effective_timeout L job = Inr (py_min (timeout_seconds job) (limits.timeout l)) \<and>
         in_range 10 3600 (py_min (timeout_seconds job) (limits.timeout l))"
proof -
  note r = limits_in_range[OF assms(3)]
  have t: "in_range 10 3600 (timeout_seconds job)"
    using submit_job_timeout_in_range[OF assms(1,2)] .
  have e: "effective_timeout L job = Inr (py_min (timeout_seconds job) (limits.timeout l))"
    using assms(3) by (simp add: effective_timeout_def)
  have p: "in_range 10 3600 (py_min (timeout_seconds job) (limits.timeout l))"
    using py_min_in_range[OF t] r by blast
  from r t e p show ?thesis by blast
qed

lemma example_memory_submit:
  "submit_job example_lib True False 1 8 example_memory_request = Inr example_memory_job"
proof -
  have "''timeout'' \<notin> set (keys (request_config example_memory_request))"
    by (simp add: request_config_def example_memory_request_def example_request_def keys_def)
  then obtain job where "submit_job example_lib True False 1 8 example_memory_request = Inr job"
    using submit_job_returns_without_timeout by blast
  then show ?thesis by (simp add: example_memory_job_def)
qed

lemma example_memory_limits:
  "get_resource_limits example_lib (Job.resource_profile example_memory_job) (Some example_memory_job)
     = Inr \<lparr>cpu_shares = PInt 512, memory_mb = PInt 8192, timeout = PInt 60, gpu = False\<rparr>"
  by code_simp

lemma example_brace_valid: "valid_request example_brace_request"
  by (simp add: valid_request_def example_brace_request_def example_request_def)

lemma example_brace_requested:
  "dict_get (request_config example_brace_request) ''memory_mb'' = Inr (JNum (PInt 100000))"
  by (simp add: request_config_def example_brace_request_def example_request_def dict_get_def)

lemma example_brace_submit:
  "submit_job example_lib True False 1 9 example_brace_request = Inr example_brace_job"
proof -
  have "''timeout'' \<notin> set (keys (request_config example_brace_request))"
    by (simp add: request_config_def example_brace_request_def example_request_def keys_def)
  then obtain job where "submit_job example_lib True False 1 9 example_brace_request = Inr job"
    using submit_job_returns_without_timeout by blast
  then show ?thesis by (simp add: example_brace_job_def)
qed

lemma example_brace_payload:
  "map_option custom_config_search (analysis_reasoning example_brace_job)
     = Some (Some [CHR ''{'', CHR 0x22, CHR ''a'', CHR ''}''])"
  by code_simp

lemma example_brace_loads:
  "json_loads example_lib [CHR ''{'', CHR 0x22, CHR ''a'', CHR ''}''] = None"
  by code_simp

lemma example_brace_limits:
  "get_resource_limits example_lib (Job.resource_profile example_brace_job) (Some example_brace_job)
     = Inr \<lparr>cpu_shares = PInt 512, memory_mb = PInt 512, timeout = PInt 60, gpu = False\<rparr>"
  by code_simp

text \<open>
  Claim C4: the effective limits of a job with custom overrides are clamped, and a
  request for \<open>memory_mb = 100000\<close> yields a ceiling of exactly 8192. The limits that the
  executor resolves do lie in the ranges, for every job (\<open>limits_in_range\<close>,
  \<open>submitted_limits_in_range\<close>), and an override of 100000 that the executor decodes
  gives 8192 (\<open>memory_override_100000\<close>, \<open>example_memory_limits\<close>). But the executor finds
  the stored configuration with the lazy pattern \<open>CUSTOM_CONFIG:({.*?})\<close>, which ends at
  the first closing brace. For the request below, whose configuration has a closing
  brace in a key, the text found is no JSON, the handler keeps the defaults, and the job
  runs with the ceiling 512 of its profile, not with 8192.
\<close>

theorem requested_memory_override_lost:
  "valid_request example_brace_request \<and>
   dict_get (request_config example_brace_request) ''memory_mb'' = Inr (JNum (PInt 100000)) \<and>
   submit_job example_lib True False 1 9 example_brace_request = Inr example_brace_job \<and>
   map_option custom_config_search (analysis_reasoning example_brace_job)
     = Some (Some [CHR ''{'', CHR 0x22, CHR ''a'', CHR ''}'']) \<and>
   json_loads example_lib [CHR ''{'', CHR 0x22, CHR ''a'', CHR ''}''] = None \<and>
   get_resource_limits example_lib (Job.resource_profile example_brace_job) (Some example_brace_job)
     = Inr \<lparr>cpu_shares = PInt 512, memory_mb = PInt 512, timeout = PInt 60, gpu = False\<rparr>"
  using example_brace_valid example_brace_requested example_brace_submit example_brace_payload
    example_brace_loads example_brace_limits
  by simp

section \<open>The effective timeout\<close>

lemma example_timeout_stored:
  "map_sum id timeout_seconds (submit_job example_lib True False 1 7 example_timeout_request)
     = Inr (PInt 3000)"
  by code_simp

lemma example_timeout_submit:
  "submit_job example_lib True False 1 7 example_timeout_request = Inr example_timeout_job"
proof (cases "submit_job example_lib True False 1 7 example_timeout_request")
  case (Inl e)
  with example_timeout_stored show ?thesis by simp
next
  case (Inr job)
  then show ?thesis by (simp add: example_timeout_job_def)
qed

lemma example_timeout_seconds: "timeout_seconds example_timeout_job = PInt 3000"
  using example_timeout_stored example_timeout_submit by simp

lemma example_timeout_profile: "Job.resource_profile example_timeout_job = ''small''"
  by code_simp

lemma example_timeout_default:
  "profile_defaults ''small'' =
     Inr \<lparr>cpu_shares = PInt 512, memory_mb = PInt 512, timeout = PInt 60, gpu = False\<rparr>"
  by (simp add: profile_defaults_def resolve_profile_def RESOURCE_PROFILES_def keys_def dict_get_def)

lemma example_timeout_override:
  "timeout_override example_lib example_timeout_job = Some (PInt 3000)"
  by code_simp

lemma example_timeout_effective:
  "effective_timeout example_lib example_timeout_job = Inr (PInt 3000)"
  by code_simp

text \<open>
  Claim C5, as stated, fails: a request with timeout 300, profile small (default timeout
  60) and custom timeout 3000 runs with an effective timeout of 3000, not with the
  minimum 60 of the three values.
\<close>

theorem effective_timeout_counterexample:
  "submit_job example_lib True False 1 7 example_timeout_request = Inr example_timeout_job \<and>
   JobSubmitRequest.timeout example_timeout_request = 300 \<and>
   map_sum id limits.timeout (profile_defaults (Job.resource_profile example_timeout_job))
     = Inr (PInt 60) \<and>
   timeout_override example_lib example_timeout_job = Some (PInt 3000) \<and>
   py_min (PInt 300) (py_min (PInt 60) (PInt 3000)) = PInt 60 \<and>
   effective_timeout example_lib example_timeout_job = Inr (PInt 3000)"
  using example_timeout_submit example_timeout_profile example_timeout_default
    example_timeout_override example_timeout_effective
  by (simp add: example_timeout_request_def example_request_def py_min_def)

text \<open>
  Claim C5, amended. The effective timeout of a run is the minimum of the timeout stored
  with the job and the timeout of its limits. The timeout of the limits is the default
  of the profile when no custom timeout is decoded from the job, and the custom timeout
  clamped to [10, 3600] when one is: the override replaces the default of the profile and
  does not join the minimum. The timeout that \<open>submit_job\<close> stores with the job is the
  custom timeout clamped to [10, 3600] when the request has one, and the requested
  timeout otherwise.
\<close>

theorem effective_timeout_override_replaces_default:
  assumes "effective_timeout L job = Inr t"
  shows "\<exists>d. profile_defaults (Job.resource_profile job) = Inr d \<and>
           t = py_min (timeout_seconds job)
                 (case timeout_override L job of None \<Rightarrow> limits.timeout d | Some n \<Rightarrow> n) \<and>
           (\<forall>request a g u i.
              submit_job L a g u i request = Inr job \<longrightarrow>
              timeout_seconds job =
                (case override_value (request_config request) ''timeout'' 10 3600 of
                   Some n \<Rightarrow> n | None \<Rightarrow> PInt (JobSubmitRequest.timeout request)))"
proof -
  obtain d where d: "profile_defaults (Job.resource_profile job) = Inr d"
    using profile_defaults_in_range by blast
  from assms obtain l where
    l: "get_resource_limits L (Job.resource_profile job) (Some job) = Inr l"
    and t: "t = py_min (timeout_seconds job) (limits.timeout l)"
    by (auto simp: effective_timeout_def split: sum.splits)
  have lt: "limits.timeout l =
              (case timeout_override L job of None \<Rightarrow> limits.timeout d | Some n \<Rightarrow> n)"
  proof (cases "decoded_config L job")
    case None
    with l d have "l = d" by (simp add: get_resource_limits_cases)
    with None show ?thesis by (simp add: timeout_override_def)
  next
    case (Some cfg)
    from get_resource_limits_decoded[OF l Some d]
    have "apply_custom_config cfg d = Inr l" .
    from apply_custom_config_Inr[OF this] Some show ?thesis
      by (simp add: timeout_override_def)
  qed
  have s: "\<forall>request a g u i.
              submit_job L a g u i request = Inr job \<longrightarrow>
              timeout_seconds job =
                (case override_value (request_config request) ''timeout'' 10 3600 of
                   Some n \<Rightarrow> n | None \<Rightarrow> PInt (JobSubmitRequest.timeout request))"
    using submit_job_timeout by blast
  from d t lt s show ?thesis by simp
qed

theorem effective_timeout_override_replaces_default_witness:
  "effective_timeout example_lib example_timeout_job = Inr (PInt 3000) \<and>
   profile_defaults (Job.resource_profile example_timeout_job) =
     Inr \<lparr>cpu_shares = PInt 512, memory_mb = PInt 512, timeout = PInt 60, gpu = False\<rparr> \<and>
   timeout_override example_lib example_timeout_job = Some (PInt 3000) \<and>
   submit_job example_lib True False 1 7 example_timeout_request = Inr example_timeout_job \<and>
   override_value (request_config example_timeout_request) ''timeout'' 10 3600 = Some (PInt 3000) \<and>
   timeout_seconds example_timeout_job = PInt 3000 \<and>
   PInt 3000 = py_min (timeout_seconds example_timeout_job) (PInt 3000)"
proof -
  have o: "override_value (request_config example_timeout_request) ''timeout'' 10 3600
             = Some (PInt 3000)"
    by (simp add: override_value_def request_config_def example_timeout_request_def
          example_request_def keys_def dict_get_def clamp_int)
  from effective_timeout_override_replaces_default[OF example_timeout_effective]
  show ?thesis
    using o example_timeout_effective example_timeout_profile example_timeout_default
      example_timeout_override example_timeout_submit example_timeout_seconds
    by (simp add: py_min_def)
qed

section \<open>A custom configuration that does not parse\<close>

text \<open>
  Claim C10. When the stored reasoning of a job has a CUSTOM_CONFIG marker whose payload
  is not valid JSON, \<open>get_resource_limits\<close> returns the default limits of the resolved
  profile, an entry of the profile table, with no override applied.
\<close>

theorem invalid_custom_config_keeps_defaults:
  assumes "analysis_reasoning job = Some text"
    and "custom_config_search text = Some payload"
    and "json_loads L payload = None"
  shows "\<exists>d. profile_defaults profile = Inr d \<and>
             d \<in> snd ` set RESOURCE_PROFILES \<and>
             get_resource_limits L profile (Some job) = Inr d"
proof -
  obtain d where d: "profile_defaults profile = Inr d"
    using profile_defaults_in_range by blast
  then have "map_of RESOURCE_PROFILES (resolve_profile profile) = Some d"
    by (simp add: profile_defaults_def dict_get_def split: option.splits)
  then have "(resolve_profile profile, d) \<in> set RESOURCE_PROFILES" by (rule map_of_SomeD)
  then have "snd (resolve_profile profile, d) \<in> snd ` set RESOURCE_PROFILES" by (rule imageI)
  then have m: "d \<in> snd ` set RESOURCE_PROFILES" by simp
  have "decoded_config L job = None"
    using assms by (simp add: decoded_config_def)
  with d have "get_resource_limits L profile (Some job) = Inr d"
    by (simp add: get_resource_limits_cases)
  with d m show ?thesis by blast
qed

lemma example_broken_search:
  "custom_config_search ''Simple script - using small profile | CUSTOM_CONFIG:{memory_mb=100000}''
     = Some ''{memory_mb=100000}''"
  by code_simp

lemma example_broken_loads: "json_loads example_lib ''{memory_mb=100000}'' = None"
  by code_simp

theorem invalid_custom_config_keeps_defaults_witness:
  "analysis_reasoning example_broken_job =
     Some ''Simple script - using small profile | CUSTOM_CONFIG:{memory_mb=100000}'' \<and>
   custom_config_search ''Simple script - using small profile | CUSTOM_CONFIG:{memory_mb=100000}''
     = Some ''{memory_mb=100000}'' \<and>
   json_loads example_lib ''{memory_mb=100000}'' = None \<and>
   get_resource_limits example_lib ''small'' (Some example_broken_job) =
     Inr \<lparr>cpu_shares = PInt 512, memory_mb = PInt 512, timeout = PInt 60, gpu = False\<rparr>"
proof -
  have r: "analysis_reasoning example_broken_job =
     Some ''Simple script - using small profile | CUSTOM_CONFIG:{memory_mb=100000}''"
    by (simp add: example_broken_job_def)
  have p: "profile_defaults ''small'' =
     Inr \<lparr>cpu_shares = PInt 512, memory_mb = PInt 512, timeout = PInt 60, gpu = False\<rparr>"
    by (simp add: profile_defaults_def resolve_profile_def RESOURCE_PROFILES_def keys_def dict_get_def)
  from invalid_custom_config_keeps_defaults[OF r example_broken_search example_broken_loads,
         of "''small''"]
  show ?thesis using r p example_broken_search example_broken_loads by auto
qed

section \<open>Log replay for a finished job\<close>

lemma filter_zip_snd:
  "length idx = length ls \<Longrightarrow>
   map snd (filter (\<lambda>(i, l). Q l) (zip idx ls)) = filter Q ls"
  by (induction idx ls rule: list_induct2) auto

lemma send_existing_logs_messages:
  "map log_message (send_existing_logs log_file jid 0) =
     map (Some \<circ> rstrip)
       (filter (\<lambda>line. strip line \<noteq> [])
          (case log_file of None \<Rightarrow> [] | Some content \<Rightarrow> readlines content))"
proof (cases log_file)
  case None
  then show ?thesis by (simp add: send_existing_logs_def)
next
  case (Some content)
  let ?ls = "readlines content"
  let ?xs = "filter (\<lambda>(i, line). strip line \<noteq> []) (zip [0 ..< length ?ls] ?ls)"
  have "map log_message (map (\<lambda>(i, line). Log jid ''stdout'' (rstrip line) (i + 1)) ?xs)
          = map (Some \<circ> rstrip) (map snd ?xs)"
    by (simp add: case_prod_beta comp_def)
  also have "map snd ?xs = filter (\<lambda>line. strip line \<noteq> []) ?ls"
    by (rule filter_zip_snd) simp
  finally show ?thesis using Some by (simp add: send_existing_logs_def)
qed

lemma send_existing_logs_are_logs:
  "\<forall>e \<in> set (send_existing_logs log_file jid start). \<exists>m n. e = Log jid ''stdout'' m n"
  by (cases log_file) (auto simp: send_existing_logs_def)

text \<open>
  Claim C9, as stated, fails: of the three lines of the log \<open>a\<close>, empty, \<open>b\<close> the
  subscriber receives two; the blank line is not sent.
\<close>

theorem log_replay_counterexample:
  "readlines ''a\<newline>\<newline>b\<newline>'' = [''a\<newline>'', ''\<newline>'', ''b\<newline>''] \<and>
   websocket_job_logs (Some 1) (Some example_finished_job) (Some ''a\<newline>\<newline>b\<newline>'') 7 =
     Sent [Connected 7 SUCCESS, Log 7 ''stdout'' ''a'' 1, Log 7 ''stdout'' ''b'' 3,
           Complete 7 SUCCESS]"
  by code_simp

text \<open>
  Claim C9, amended. A subscriber that connects to the log stream of its own job in a
  terminal state receives the connection confirmation, then one log event for every line
  of the persisted log that is not blank, in the order of the file and with trailing
  whitespace removed, then one complete event, and nothing after it.
\<close>

theorem finished_job_log_replay:
  assumes "is_finished job" and "user_id job = uid" and "uid \<noteq> 0"
  shows "\<exists>log_events.
           websocket_job_logs (Some uid) (Some job) log_file jid =
             Sent (Connected jid (status job) # log_events @ [Complete jid (status job)]) \<and>
           map log_message log_events =
             map (Some \<circ> rstrip)
               (filter (\<lambda>line. strip line \<noteq> [])
                  (case log_file of None \<Rightarrow> [] | Some content \<Rightarrow> readlines content)) \<and>
           (\<forall>e \<in> set log_events. \<exists>m n. e = Log jid ''stdout'' m n)"
proof -
  have "websocket_job_logs (Some uid) (Some job) log_file jid =
          Sent (Connected jid (status job) # send_existing_logs log_file jid 0
                @ [Complete jid (status job)])"
    using assms by (simp add: websocket_job_logs_def is_finished_def Let_def)
  with send_existing_logs_messages[of log_file jid] send_existing_logs_are_logs[of log_file jid 0]
  show ?thesis by blast
qed

theorem finished_job_log_replay_witness:
  "is_finished example_finished_job \<and> user_id example_finished_job = 1 \<and> (1::nat) \<noteq> 0 \<and>
   (\<exists>log_events.
      websocket_job_logs (Some 1) (Some example_finished_job) (Some ''a\<newline>\<newline>b\<newline>'') 7 =
        Sent (Connected 7 SUCCESS # log_events @ [Complete 7 SUCCESS]) \<and>
      map log_message log_events = [Some ''a'', Some ''b''])"
proof -
  have h1: "is_finished example_finished_job"
    by (simp add: is_finished_def example_finished_job_def)
  have h2: "user_id example_finished_job = 1"
    by (simp add: example_finished_job_def example_job_def)
  have h3: "(1::nat) \<noteq> 0" by simp
  have s: "status example_finished_job = SUCCESS" by (simp add: example_finished_job_def)
  have m: "map (Some \<circ> rstrip)
             (filter (\<lambda>line. strip line \<noteq> []) (readlines ''a\<newline>\<newline>b\<newline>''))
           = [Some ''a'', Some ''b'']"
    by code_simp
  from finished_job_log_replay[OF h1 h2 h3, of "Some ''a\<newline>\<newline>b\<newline>''" 7]
  show ?thesis using h1 h2 s m by auto
qed

end
